theory Spec2Isabelle
  imports Main "HOL-Library.Sublist"
begin

section \<open>The story graph\<close>

text \<open>
  The repository ships the player script twice: \<^verbatim>\<open>story.js\<close> with
  \<^verbatim>\<open>CHOICE_TIME = 20\<close> and a second copy with \<^verbatim>\<open>CHOICE_TIME = 60\<close>, a bounded
  restart of the speech recognizer and a heartbeat. The table \<^verbatim>\<open>storyNodes\<close>, the timer
  and \<^verbatim>\<open>updateDisplay\<close> are the same in both; the voice handlers and
  \<^verbatim>\<open>showPausePopup\<close> differ, and the model takes the copy as a parameter there.
\<close>

datatype variant = Script20 | Script60

fun CHOICE_TIME :: "variant \<Rightarrow> int" where
  "CHOICE_TIME Script20 = 20"
| "CHOICE_TIME Script60 = 60"

definition MAX_RESTART_ATTEMPTS :: nat where
  "MAX_RESTART_ATTEMPTS = 5"

definition HEARTBEAT_TIMEOUT_THRESHOLD :: int where
  "HEARTBEAT_TIMEOUT_THRESHOLD = 15000"

text \<open>
  A node of \<^verbatim>\<open>storyNodes\<close>. \<open>choices\<close> is the object literal in source order
  (\<^verbatim>\<open>Object.entries\<close> lists string keys in insertion order; no label is repeated inside
  a node), and \<open>None\<close> where the node has no \<^verbatim>\<open>choices\<close> property. \<open>ending\<close> is the
  truthiness of \<^verbatim>\<open>node.ending\<close>. The narrative \<^verbatim>\<open>text\<close> and the flag
  \<^verbatim>\<open>showEnding\<close> (never read) are left out: the text is only copied to the page, and the
  model writes the key of the node where the script writes its text.
\<close>

record node =
  choices :: "(string \<times> string) list option"
  ending :: bool

definition storyNodes :: "(string \<times> node) list" where
  "storyNodes = [
  (''start'', \<lparr>choices = Some [(''Sugar Puffs'', ''breakfast''), (''Frosties'', ''breakfast'')], ending = False\<rparr>),
  (''breakfast'', \<lparr>choices = Some [(''YES'', ''tuckersoft-memory''), (''NO'', ''therapy-session'')], ending = False\<rparr>),
  (''tuckersoft-memory'', \<lparr>choices = Some [(''Continue'', ''therapy-session'')], ending = False\<rparr>),
  (''therapy-session'', \<lparr>choices = Some [(''Talk about past trauma'', ''talk-trauma''), (''Don't talk about it'', ''dont-talk'')], ending = False\<rparr>),
  (''talk-trauma'', \<lparr>choices = Some [(''Continue'', ''record-store'')], ending = False\<rparr>),
  (''dont-talk'', \<lparr>choices = Some [(''Talk'', ''talk-trauma''), (''Don't talk'', ''record-store'')], ending = False\<rparr>),
  (''record-store'', \<lparr>choices = Some [(''Phaedra'', ''pour-tea''), (''The Bermuda Triangle'', ''bermuda-path'')], ending = False\<rparr>),
  (''pour-tea'', \<lparr>choices = Some [(''Continue'', ''ending-1'')], ending = False\<rparr>),
  (''bermuda-path'', \<lparr>choices = Some [(''Shout at Dad'', ''shout-dad'')], ending = False\<rparr>),
  (''shout-dad'', \<lparr>choices = Some [(''Follow Colin'', ''follow-colin''), (''Meet Dr. Haynes'', ''therapy-two'')], ending = False\<rparr>),
  (''follow-colin'', \<lparr>choices = Some [(''Take LSD'', ''take-lsd''), (''Refuse'', ''refuse-lsd'')], ending = False\<rparr>),
  (''refuse-lsd'', \<lparr>choices = Some [(''Continue'', ''colin-jumps'')], ending = False\<rparr>),
  (''take-lsd'', \<lparr>choices = Some [(''Stefan jumps off the roof'', ''ending-1''), (''Colin jumps off'', ''colin-jumps'')], ending = False\<rparr>),
  (''colin-jumps'', \<lparr>choices = Some [(''Continue'', ''therapy-two'')], ending = False\<rparr>),
  (''therapy-two'', \<lparr>choices = Some [(''Bite nails'', ''bite-nails''), (''Pull on earlobe'', ''pull-earlobe'')], ending = False\<rparr>),
  (''bite-nails'', \<lparr>choices = Some [(''Take pills'', ''take-pills''), (''Flush pills'', ''flush-pills''), (''Throw pills away'', ''throw-pills'')], ending = False\<rparr>),
  (''pull-earlobe'', \<lparr>choices = Some [(''Take pills'', ''take-pills''), (''Flush pills'', ''flush-pills''), (''Throw pills away'', ''throw-pills'')], ending = False\<rparr>),
  (''take-pills'', \<lparr>choices = Some [(''Continue'', ''morning-after'')], ending = False\<rparr>),
  (''throw-pills'', \<lparr>choices = Some [(''Continue'', ''morning-after'')], ending = False\<rparr>),
  (''morning-after'', \<lparr>choices = Some [(''Destroy Computer'', ''destroy-computer''), (''Hit Desk'', ''hit-desk'')], ending = False\<rparr>),
  (''hit-desk'', \<lparr>choices = Some [(''Pick up family photo'', ''family-photo''), (''Pick up book'', ''pick-book'')], ending = False\<rparr>),
  (''family-photo'', \<lparr>choices = Some [(''Throw tea over computer'', ''netflix-path''), (''Destroy computer'', ''binary-path''), (''P.A.C.S'', ''pacs-path'')], ending = False\<rparr>),
  (''pick-book'', \<lparr>choices = Some [(''JFD'', ''jfd-path''), (''PAX'', ''pax-path''), (''PAC'', ''pac-path''), (''TOY'', ''toy-path'')], ending = False\<rparr>),
  (''jfd-path'', \<lparr>choices = Some [(''Try again'', ''pick-book'')], ending = False\<rparr>),
  (''pax-path'', \<lparr>choices = Some [(''Try again'', ''pick-book'')], ending = False\<rparr>),
  (''pac-path'', \<lparr>choices = Some [(''Try again'', ''pick-book''), (''Get angry'', ''pacs-path'')], ending = False\<rparr>),
  (''toy-path'', \<lparr>choices = Some [(''Don't go'', ''ending-5''), (''Go with Mum'', ''ending-7'')], ending = False\<rparr>),
  (''pacs-path'', \<lparr>choices = Some [(''2-0-5-4-1'', ''code-path''), (''Any other combination'', ''pick-book'')], ending = False\<rparr>),
  (''code-path'', \<lparr>choices = Some [(''Continue'', ''kill-dad'')], ending = False\<rparr>),
  (''kill-dad'', \<lparr>choices = Some [(''Bury body'', ''bury-body''), (''Chop-up body'', ''chop-body''), (''Back Off'', ''back-off'')], ending = False\<rparr>),
  (''bury-body'', \<lparr>choices = Some [(''Tell truth'', ''ending-4''), (''Lie'', ''ending-6'')], ending = False\<rparr>),
  (''chop-body'', \<lparr>choices = Some [(''Continue'', ''ending-4'')], ending = False\<rparr>),
  (''back-off'', \<lparr>choices = Some [(''Continue'', ''ending-3'')], ending = False\<rparr>),
  (''binary-path'', \<lparr>choices = Some [(''Try to explain'', ''ending-8'')], ending = False\<rparr>),
  (''netflix-path'', \<lparr>choices = Some [(''Give more info'', ''more-info''), (''Stop'', ''stop-info'')], ending = False\<rparr>),
  (''more-info'', \<lparr>choices = Some [(''Continue'', ''therapy-fight'')], ending = False\<rparr>),
  (''therapy-fight'', \<lparr>choices = Some [(''Yeah'', ''yeah-fight''), (''FUCK 'EM'', ''fight-em'')], ending = False\<rparr>),
  (''yeah-fight'', \<lparr>choices = Some [(''Jump out the window'', ''ending-8''), (''Fight her'', ''karate-fight'')], ending = False\<rparr>),
  (''karate-fight'', \<lparr>choices = Some [(''Karate chop dad'', ''ending-9''), (''Kill dad'', ''kill-dad'')], ending = False\<rparr>),
  (''ending-1'', \<lparr>choices = None, ending = True\<rparr>),
  (''ending-2'', \<lparr>choices = None, ending = True\<rparr>),
  (''ending-3'', \<lparr>choices = None, ending = True\<rparr>),
  (''ending-4'', \<lparr>choices = None, ending = True\<rparr>),
  (''ending-5'', \<lparr>choices = None, ending = True\<rparr>),
  (''ending-6'', \<lparr>choices = None, ending = True\<rparr>),
  (''ending-7'', \<lparr>choices = None, ending = True\<rparr>),
  (''ending-8'', \<lparr>choices = None, ending = True\<rparr>),
  (''ending-9'', \<lparr>choices = None, ending = True\<rparr>),
  (''ending-10'', \<lparr>choices = None, ending = True\<rparr>)]"

text \<open>
  \<^verbatim>\<open>storyNodes[key]\<close>: the node stored under an own key of the table, \<open>None\<close> for
  \<^verbatim>\<open>undefined\<close>. No key is repeated in the literal. (Names inherited from
  \<^verbatim>\<open>Object.prototype\<close> are not modelled; no target of the table is one.)
\<close>

definition storyNodes_at :: "string \<Rightarrow> node option" where
  "storyNodes_at key = map_of storyNodes key"

section \<open>The page and the browser around it\<close>

datatype screen = PauseScreen | TimeUpScreen | EndingScreen string

datatype button = ResumeBtn | RestartBtn | MenuBtn | TryAgainBtn | ReturnMenuBtn

text \<open>
  The buttons inside each overlay, read off the markup that \<^verbatim>\<open>showPausePopup\<close>,
  \<^verbatim>\<open>showTimeUpScreen\<close> and \<^verbatim>\<open>showEndingScreen\<close> of \<^verbatim>\<open>story.js\<close> assign to
  \<^verbatim>\<open>innerHTML\<close>. The second script clones the same overlays from templates of the
  page, which is not among the sources, and looks up the same button ids in them.
\<close>

fun screen_buttons :: "screen \<Rightarrow> button list" where
  "screen_buttons PauseScreen = [ResumeBtn, RestartBtn, MenuBtn]"
| "screen_buttons TimeUpScreen = [TryAgainBtn, ReturnMenuBtn]"
| "screen_buttons (EndingScreen text) = [TryAgainBtn, ReturnMenuBtn]"

text \<open>Callbacks waiting in \<^verbatim>\<open>setTimeout\<close>, and \<^verbatim>\<open>{ once: true }\<close> click listeners
  on \<^verbatim>\<open>document.body\<close>. Timeouts that only switch the fade classes or remove an alert
  are not modelled, nor is \<^verbatim>\<open>showAlert\<close>: they touch nothing else.\<close>

datatype task =
    UpdateDisplayTask string
  | PermissionTask
  | RestartTask
  | NetworkRetryTask
  | HeartbeatRestartTask

datatype listener = SetupListener | Reconnect | ResumeListen

datatype command = Start | Stop

text \<open>
  The globals of the script, the part of the browser they act on, and the part of the
  document they write. \<open>intervals\<close> holds the running countdown intervals of
  \<^verbatim>\<open>startTimer\<close>, each with the \<^verbatim>\<open>timeLeft\<close> of its closure; \<open>heartbeats\<close> the
  running heartbeat intervals; \<open>engine\<close> the calls made on the recognizer; \<open>uncaught\<close>
  counts exceptions that leave a callback; \<open>storyDiv\<close> is the key of the node whose text
  is shown; \<open>choicesDiv\<close> the buttons, each with its label and the \<^verbatim>\<open>nextNode\<close> of its
  handler; \<open>timerContainer\<close> the seconds shown, \<open>None\<close> when the element is absent.
\<close>

record page =
  currentNodeKey :: string
  currentChapter :: string
  timer :: "nat option"
  isPaused :: bool
  isListening :: bool
  recognition :: bool
  recognitionRestartAttempts :: nat
  lastRecognitionTime :: nat
  recognitionHeartbeat :: "nat option"
  intervals :: "(nat \<times> int) list"
  heartbeats :: "nat list"
  nextHandle :: nat
  pending :: "task list"
  bodyClick :: "listener list"
  engine :: "command list"
  uncaught :: nat
  location :: "string option"
  storyDiv :: "string option"
  progressSpan :: string
  choicesDiv :: "(string \<times> string) list"
  timerContainer :: "int option"
  screens :: "screen list"

text \<open>The page before \<^verbatim>\<open>window.onload\<close>. Handles of \<^verbatim>\<open>setInterval\<close> are positive.\<close>

definition initialPage :: page where
  "initialPage = \<lparr>currentNodeKey = ''start'', currentChapter = ''Start'', timer = None,
     isPaused = False, isListening = False, recognition = False,
     recognitionRestartAttempts = 0, lastRecognitionTime = 0, recognitionHeartbeat = None,
     intervals = [], heartbeats = [], nextHandle = 1, pending = [], bodyClick = [],
     engine = [], uncaught = 0, location = None, storyDiv = None, progressSpan = [],
     choicesDiv = [], timerContainer = None, screens = []\<rparr>"

text \<open>\<^verbatim>\<open>if (handle)\<close>: \<^verbatim>\<open>null\<close>, \<^verbatim>\<open>undefined\<close> and 0 are falsy.\<close>

definition truthy :: "nat option \<Rightarrow> bool" where
  "truthy handle = (case handle of None \<Rightarrow> False | Some h \<Rightarrow> h \<noteq> 0)"

definition clearInterval :: "nat option \<Rightarrow> page \<Rightarrow> page" where
  "clearInterval handle s =
     (case handle of
        None \<Rightarrow> s
      | Some h \<Rightarrow> s\<lparr>intervals := filter (\<lambda>(i, timeLeft). i \<noteq> h) (intervals s),
                     heartbeats := filter (\<lambda>i. i \<noteq> h) (heartbeats s)\<rparr>)"

section \<open>The timer\<close>

definition updateTimerDisplay :: "int \<Rightarrow> page \<Rightarrow> page" where
  "updateTimerDisplay seconds s = s\<lparr>timerContainer := Some seconds\<rparr>"

definition showTimeUpScreen :: "page \<Rightarrow> page" where
  "showTimeUpScreen s = s\<lparr>screens := screens s @ [TimeUpScreen]\<rparr>"

text \<open>\<^verbatim>\<open>startTimer\<close>, with the value of \<^verbatim>\<open>CHOICE_TIME\<close> as \<open>D\<close>.\<close>

definition startTimer :: "int \<Rightarrow> page \<Rightarrow> page" where
  "startTimer D s =
     (let s1 = (if truthy (timer s) then (clearInterval (timer s) s)\<lparr>timerContainer := None\<rparr> else s);
          s2 = updateTimerDisplay D s1;
          h = nextHandle s2
      in s2\<lparr>intervals := intervals s2 @ [(h, D)], nextHandle := Suc h, timer := Some h\<rparr>)"

text \<open>One firing of the interval \<open>h\<close> created by \<^verbatim>\<open>startTimer\<close>; a cleared interval
  does not fire. The callback clears whatever handle the global \<^verbatim>\<open>timer\<close> holds.\<close>

definition timer_callback :: "nat \<Rightarrow> page \<Rightarrow> page" where
  "timer_callback h s =
     (case map_of (intervals s) h of
        None \<Rightarrow> s
      | Some timeLeft \<Rightarrow>
          let s1 = updateTimerDisplay (timeLeft - 1)
                     (s\<lparr>intervals := map (\<lambda>(i, t). if i = h then (i, timeLeft - 1) else (i, t)) (intervals s)\<rparr>)
          in if timeLeft - 1 \<le> 0
             then showTimeUpScreen ((clearInterval (timer s1) s1)\<lparr>timerContainer := None\<rparr>)
             else s1)"

section \<open>The display controller\<close>

definition showEndingScreen :: "string \<Rightarrow> page \<Rightarrow> page" where
  "showEndingScreen text s = s\<lparr>screens := screens s @ [EndingScreen text]\<rparr>"

text \<open>The \<^verbatim>\<open>forEach\<close> over \<^verbatim>\<open>Object.entries(node.choices)\<close>.\<close>

fun createChoiceButtons :: "(string \<times> string) list \<Rightarrow> page \<Rightarrow> page" where
  "createChoiceButtons [] s = s"
| "createChoiceButtons ((choice, nextNode) # entries) s =
     (if storyNodes_at nextNode = None then createChoiceButtons entries s
      else createChoiceButtons entries (s\<lparr>choicesDiv := choicesDiv s @ [(choice, nextNode)]\<rparr>))"

text \<open>
  \<^verbatim>\<open>updateDisplay(storyNodes[key])\<close>: the call itself only schedules the callback. The
  callback, 300 ms later: an argument that is \<^verbatim>\<open>undefined\<close> throws at
  \<^verbatim>\<open>node.text\<close>, a node with neither \<^verbatim>\<open>ending\<close> nor \<^verbatim>\<open>choices\<close> throws at
  \<^verbatim>\<open>Object.entries\<close>, after the text and the choices were reset.
\<close>

definition updateDisplay :: "string \<Rightarrow> page \<Rightarrow> page" where
  "updateDisplay key s = s\<lparr>pending := pending s @ [UpdateDisplayTask key]\<rparr>"

definition updateDisplay_callback :: "int \<Rightarrow> string \<Rightarrow> page \<Rightarrow> page" where
  "updateDisplay_callback D key s =
     (case storyNodes_at key of
        None \<Rightarrow> s\<lparr>uncaught := Suc (uncaught s)\<rparr>
      | Some node \<Rightarrow>
          let s1 = s\<lparr>storyDiv := Some key, progressSpan := ''Chapter: '' @ currentChapter s,
                      choicesDiv := []\<rparr>
          in if ending node then showEndingScreen key s1
             else (case choices node of
                     None \<Rightarrow> s1\<lparr>uncaught := Suc (uncaught s1)\<rparr>
                   | Some entries \<Rightarrow> startTimer D (createChoiceButtons entries s1)))"

text \<open>The \<^verbatim>\<open>onclick\<close> of the \<open>i\<close>-th button of \<^verbatim>\<open>choicesDiv\<close>.\<close>

definition choice_onclick :: "nat \<Rightarrow> page \<Rightarrow> page" where
  "choice_onclick i s =
     (if i < length (choicesDiv s)
      then updateDisplay (snd (choicesDiv s ! i)) (clearInterval (timer s) s)
      else s)"

definition restartGame :: "page \<Rightarrow> page" where
  "restartGame s =
     updateDisplay ''start''
       (clearInterval (timer s) (s\<lparr>currentNodeKey := ''start'', currentChapter := ''Start''\<rparr>))"

section \<open>Strings of the transcript\<close>

text \<open>
  \<^verbatim>\<open>toLowerCase\<close> on the letters A to Z; other characters are kept (no character
  outside A to Z is lowercased to one of s, t, o, p). \<^verbatim>\<open>trim\<close> removes white space
  at both ends. \<^verbatim>\<open>includes\<close> is the search for a contiguous substring.
\<close>

definition toLowerCase_char :: "char \<Rightarrow> char" where
  "toLowerCase_char c =
     (case map_of (zip ''ABCDEFGHIJKLMNOPQRSTUVWXYZ'' ''abcdefghijklmnopqrstuvwxyz'') c of
        None \<Rightarrow> c
      | Some l \<Rightarrow> l)"

definition toLowerCase :: "string \<Rightarrow> string" where
  "toLowerCase str = map toLowerCase_char str"

definition isWhiteSpace :: "char \<Rightarrow> bool" where
  "isWhiteSpace c = (c \<in> set [CHR 0x09, CHR 0x0A, CHR 0x0B, CHR 0x0C, CHR 0x0D, CHR 0x20, CHR 0xA0])"

definition trim :: "string \<Rightarrow> string" where
  "trim str = rev (dropWhile isWhiteSpace (rev (dropWhile isWhiteSpace str)))"

fun includes_str :: "string \<Rightarrow> string \<Rightarrow> bool" where
  "includes_str [] sub = (sub = [])"
| "includes_str (c # cs) sub = (prefix sub (c # cs) \<or> includes_str cs sub)"

section \<open>Pause\<close>

definition removeScreen :: "nat \<Rightarrow> page \<Rightarrow> page" where
  "removeScreen i s = s\<lparr>screens := take i (screens s) @ drop (Suc i) (screens s)\<rparr>"

text \<open>\<^verbatim>\<open>showPausePopup\<close> of each script.\<close>

fun showPausePopup :: "variant \<Rightarrow> page \<Rightarrow> page" where
  "showPausePopup Script20 s =
     (if isPaused s then s
      else let s1 = s\<lparr>isPaused := True\<rparr>;
               s2 = s1\<lparr>screens := screens s1 @ [PauseScreen]\<rparr>
           in clearInterval (timer s2) s2)"
| "showPausePopup Script60 s =
     (if isPaused s then s
      else let s1 = s\<lparr>isPaused := True\<rparr>;
               s2 = (if truthy (recognitionHeartbeat s1) then clearInterval (recognitionHeartbeat s1) s1 else s1);
               s3 = (if recognition s2 then s2\<lparr>isListening := False, engine := engine s2 @ [Stop]\<rparr> else s2);
               s4 = clearInterval (timer s3) s3
           in s4\<lparr>screens := screens s4 @ [PauseScreen]\<rparr>)"

text \<open>The click handlers of the pause overlay at position \<open>i\<close>; \<open>yes\<close> is the answer
  to \<^verbatim>\<open>confirm\<close>.\<close>

fun resumeBtn_click :: "variant \<Rightarrow> nat \<Rightarrow> page \<Rightarrow> page" where
  "resumeBtn_click Script20 i s =
     startTimer (CHOICE_TIME Script20) ((removeScreen i s)\<lparr>isPaused := False\<rparr>)"
| "resumeBtn_click Script60 i s =
     (let s1 = startTimer (CHOICE_TIME Script60) ((removeScreen i s)\<lparr>isPaused := False\<rparr>)
      in s1\<lparr>recognitionRestartAttempts := 0, bodyClick := bodyClick s1 @ [ResumeListen]\<rparr>)"

fun restartBtn_click :: "variant \<Rightarrow> bool \<Rightarrow> nat \<Rightarrow> page \<Rightarrow> page" where
  "restartBtn_click Script20 yes i s =
     (if yes then restartGame ((removeScreen i s)\<lparr>isPaused := False\<rparr>) else s)"
| "restartBtn_click Script60 yes i s =
     (if yes
      then let s1 = restartGame ((removeScreen i s)\<lparr>isPaused := False\<rparr>)
           in s1\<lparr>recognitionRestartAttempts := 0, bodyClick := bodyClick s1 @ [SetupListener]\<rparr>
      else s)"

definition menuBtn_click :: "bool \<Rightarrow> page \<Rightarrow> page" where
  "menuBtn_click yes s = (if yes then s\<lparr>location := Some ''index.html''\<rparr> else s)"

text \<open>The two buttons of the time-up and of the ending overlay.\<close>

definition tryAgainBtn_click :: "nat \<Rightarrow> page \<Rightarrow> page" where
  "tryAgainBtn_click i s = restartGame (removeScreen i s)"

definition returnMenuBtn_click :: "page \<Rightarrow> page" where
  "returnMenuBtn_click s = s\<lparr>location := Some ''index.html''\<rparr>"

fun screen_click :: "variant \<Rightarrow> screen \<Rightarrow> button \<Rightarrow> bool \<Rightarrow> nat \<Rightarrow> page \<Rightarrow> page" where
  "screen_click v PauseScreen ResumeBtn yes i s = resumeBtn_click v i s"
| "screen_click v PauseScreen RestartBtn yes i s = restartBtn_click v yes i s"
| "screen_click v PauseScreen MenuBtn yes i s = menuBtn_click yes s"
| "screen_click v TimeUpScreen TryAgainBtn yes i s = tryAgainBtn_click i s"
| "screen_click v TimeUpScreen ReturnMenuBtn yes i s = returnMenuBtn_click s"
| "screen_click v (EndingScreen text) TryAgainBtn yes i s = tryAgainBtn_click i s"
| "screen_click v (EndingScreen text) ReturnMenuBtn yes i s = returnMenuBtn_click s"
| "screen_click v scr b yes i s = s"

section \<open>The voice monitor\<close>

text \<open>
  \<^verbatim>\<open>setupVoiceRecognition\<close>. \<open>supported\<close>: the browser has the recognizer;
  \<open>ok\<close>: \<^verbatim>\<open>recognition.start()\<close> returns without throwing. The first script
  awaits the microphone permission before it goes on (\<open>PermissionTask\<close>).
\<close>

fun setupVoiceRecognition :: "variant \<Rightarrow> bool \<Rightarrow> bool \<Rightarrow> page \<Rightarrow> page" where
  "setupVoiceRecognition Script20 supported ok s =
     (if \<not> supported then s else s\<lparr>pending := pending s @ [PermissionTask]\<rparr>)"
| "setupVoiceRecognition Script60 supported ok s =
     (if \<not> supported then s\<lparr>bodyClick := bodyClick s @ [Reconnect]\<rparr>
      else let s1 = s\<lparr>recognition := True\<rparr>
           in if ok then s1\<lparr>engine := engine s1 @ [Start]\<rparr>
              else s1\<lparr>bodyClick := bodyClick s1 @ [Reconnect]\<rparr>)"

definition setupRecognitionHeartbeat :: "page \<Rightarrow> page" where
  "setupRecognitionHeartbeat s =
     (let s1 = (if truthy (recognitionHeartbeat s) then clearInterval (recognitionHeartbeat s) s else s);
          h = nextHandle s1
      in s1\<lparr>heartbeats := heartbeats s1 @ [h], nextHandle := Suc h, recognitionHeartbeat := Some h\<rparr>)"

text \<open>One firing of the heartbeat interval \<open>h\<close> at time \<open>now\<close>.\<close>

definition heartbeat_callback :: "nat \<Rightarrow> nat \<Rightarrow> page \<Rightarrow> page" where
  "heartbeat_callback h now s =
     (if h \<notin> set (heartbeats s) then s
      else if isPaused s then s
      else if isListening s \<and> int now - int (lastRecognitionTime s) > HEARTBEAT_TIMEOUT_THRESHOLD
      then s\<lparr>engine := engine s @ [Stop], pending := pending s @ [HeartbeatRestartTask]\<rparr>
      else s)"

fun recognition_onstart :: "variant \<Rightarrow> nat \<Rightarrow> page \<Rightarrow> page" where
  "recognition_onstart Script20 now s = s\<lparr>isListening := True\<rparr>"
| "recognition_onstart Script60 now s =
     setupRecognitionHeartbeat (s\<lparr>isListening := True, lastRecognitionTime := now\<rparr>)"

text \<open>\<^verbatim>\<open>recognition.onend\<close>. In the first script \<^verbatim>\<open>recognition.start()\<close> is called
  outside any \<^verbatim>\<open>try\<close>.\<close>

fun recognition_onend :: "variant \<Rightarrow> bool \<Rightarrow> page \<Rightarrow> page" where
  "recognition_onend Script20 ok s =
     (if isListening s
      then (if ok then s\<lparr>engine := engine s @ [Start]\<rparr> else s\<lparr>uncaught := Suc (uncaught s)\<rparr>)
      else s)"
| "recognition_onend Script60 ok s =
     (let s1 = s\<lparr>isListening := False\<rparr>
      in if \<not> isPaused s1 \<and> recognitionRestartAttempts s1 < MAX_RESTART_ATTEMPTS
         then s1\<lparr>recognitionRestartAttempts := Suc (recognitionRestartAttempts s1),
                 pending := pending s1 @ [RestartTask]\<rparr>
         else if recognitionRestartAttempts s1 \<ge> MAX_RESTART_ATTEMPTS
         then s1\<lparr>bodyClick := bodyClick s1 @ [Reconnect]\<rparr>
         else s1)"

text \<open>The loop of the second script over the results from \<^verbatim>\<open>event.resultIndex\<close> on;
  it stops at the first transcript with the keyword.\<close>

fun onresult_loop :: "string list \<Rightarrow> page \<Rightarrow> page" where
  "onresult_loop [] s = s"
| "onresult_loop (transcript # rest) s =
     (if includes_str (trim (toLowerCase transcript)) ''stop'' then showPausePopup Script60 s
      else onresult_loop rest s)"

text \<open>\<^verbatim>\<open>recognition.onresult\<close>: \<open>results\<close> holds the transcript of the first alternative
  of every entry of \<^verbatim>\<open>event.results\<close>.\<close>

fun recognition_onresult :: "variant \<Rightarrow> nat \<Rightarrow> nat \<Rightarrow> string list \<Rightarrow> page \<Rightarrow> page" where
  "recognition_onresult Script20 now resultIndex results s =
     (if isPaused s then s
      else if includes_str (toLowerCase (concat results)) ''stop'' then showPausePopup Script20 s
      else s)"
| "recognition_onresult Script60 now resultIndex results s =
     onresult_loop (drop resultIndex results)
       (s\<lparr>recognitionRestartAttempts := 0, lastRecognitionTime := now\<rparr>)"

fun recognition_onerror :: "variant \<Rightarrow> string \<Rightarrow> page \<Rightarrow> page" where
  "recognition_onerror Script20 error s = s"
| "recognition_onerror Script60 error s =
     (let s1 = s\<lparr>isListening := False\<rparr>
      in if error = ''not-allowed'' then s1\<lparr>bodyClick := bodyClick s1 @ [Reconnect]\<rparr>
         else if error = ''network'' then s1\<lparr>pending := pending s1 @ [NetworkRetryTask]\<rparr>
         else s1)"

text \<open>The click listeners of \<^verbatim>\<open>document.body\<close>. \<open>resumeOk\<close>: the
  \<^verbatim>\<open>recognition.start()\<close> of the listener added by Resume returns without throwing.\<close>

fun listener_call :: "variant \<Rightarrow> bool \<Rightarrow> bool \<Rightarrow> bool \<Rightarrow> listener \<Rightarrow> page \<Rightarrow> page" where
  "listener_call Script20 supported ok resumeOk SetupListener s =
     (if \<not> isListening s then setupVoiceRecognition Script20 supported ok s else s)"
| "listener_call Script60 supported ok resumeOk SetupListener s =
     setupVoiceRecognition Script60 supported ok s"
| "listener_call v supported ok resumeOk Reconnect s =
     setupVoiceRecognition v supported ok (s\<lparr>recognitionRestartAttempts := 0\<rparr>)"
| "listener_call v supported ok resumeOk ResumeListen s =
     (if recognition s \<and> resumeOk then s\<lparr>engine := engine s @ [Start]\<rparr>
      else setupVoiceRecognition v supported ok s)"

definition body_click :: "variant \<Rightarrow> bool \<Rightarrow> bool \<Rightarrow> bool \<Rightarrow> page \<Rightarrow> page" where
  "body_click v supported ok resumeOk s =
     fold (listener_call v supported ok resumeOk) (bodyClick s) (s\<lparr>bodyClick := []\<rparr>)"

text \<open>A waiting \<^verbatim>\<open>setTimeout\<close> callback runs; \<open>ok\<close>: the permission is granted, or
  \<^verbatim>\<open>recognition.start()\<close> returns without throwing.\<close>

fun task_run :: "variant \<Rightarrow> bool \<Rightarrow> task \<Rightarrow> page \<Rightarrow> page" where
  "task_run v ok (UpdateDisplayTask key) s = updateDisplay_callback (CHOICE_TIME v) key s"
| "task_run v ok PermissionTask s =
     (if ok then s\<lparr>recognition := True, engine := engine s @ [Start]\<rparr> else s)"
| "task_run v ok RestartTask s =
     (if ok then s\<lparr>engine := engine s @ [Start]\<rparr> else s\<lparr>bodyClick := bodyClick s @ [Reconnect]\<rparr>)"
| "task_run v ok NetworkRetryTask s =
     (if \<not> isPaused s \<and> ok then s\<lparr>engine := engine s @ [Start]\<rparr> else s)"
| "task_run v ok HeartbeatRestartTask s =
     (if \<not> isPaused s
      then (if ok then s\<lparr>engine := engine s @ [Start]\<rparr> else s\<lparr>uncaught := Suc (uncaught s)\<rparr>)
      else s)"

section \<open>The event loop\<close>

text \<open>\<^verbatim>\<open>window.onload\<close>: the table has \<^verbatim>\<open>start\<close>, so nothing is thrown.\<close>

definition window_onload :: "variant \<Rightarrow> page" where
  "window_onload v = updateDisplay ''start'' (initialPage\<lparr>bodyClick := [SetupListener]\<rparr>)"

text \<open>
  What the single thread can be handed next: an interval fires, a waiting timeout runs
  (any of them: their delays differ), a click, or an event of the recognizer. A click on a
  button also reaches the listeners of the body: it is the event of the button followed by
  \<open>ClickBody\<close>. \<open>ClickRestart\<close> and \<open>ClickMenu\<close> are the two buttons of the page
  itself. Leaving for the menu only records the address: the model lets events go on.
\<close>

datatype event =
    Tick nat
  | Heartbeat nat nat
  | Fire nat bool
  | ClickChoice nat
  | ClickScreen nat button bool
  | ClickBody bool bool bool
  | ClickRestart bool
  | ClickMenu bool
  | RecStart nat
  | RecEnd bool
  | RecResult nat nat "string list"
  | RecError string

fun step :: "variant \<Rightarrow> event \<Rightarrow> page \<Rightarrow> page" where
  "step v (Tick h) s = timer_callback h s"
| "step v (Heartbeat h now) s = heartbeat_callback h now s"
| "step v (Fire i ok) s =
     (if i < length (pending s)
      then task_run v ok (pending s ! i) (s\<lparr>pending := take i (pending s) @ drop (Suc i) (pending s)\<rparr>)
      else s)"
| "step v (ClickChoice i) s = choice_onclick i s"
| "step v (ClickScreen i b yes) s =
     (if i < length (screens s) \<and> b \<in> set (screen_buttons (screens s ! i))
      then screen_click v (screens s ! i) b yes i s
      else s)"
| "step v (ClickBody supported ok resumeOk) s = body_click v supported ok resumeOk s"
| "step v (ClickRestart yes) s = (if yes then restartGame s else s)"
| "step v (ClickMenu yes) s = menuBtn_click yes s"
| "step v (RecStart now) s = recognition_onstart v now s"
| "step v (RecEnd ok) s = recognition_onend v ok s"
| "step v (RecResult now resultIndex results) s = recognition_onresult v now resultIndex results s"
| "step v (RecError error) s = recognition_onerror v error s"

fun run :: "variant \<Rightarrow> event list \<Rightarrow> page \<Rightarrow> page" where
  "run v [] s = s"
| "run v (e # es) s = run v es (step v e s)"

section \<open>Notions used by the properties\<close>

text \<open>
  The countdown bookkeeping is consistent: at most one interval of \<^verbatim>\<open>startTimer\<close> is
  running, it is the one whose handle the global \<^verbatim>\<open>timer\<close> holds, and that handle is
  positive and was handed out before.
\<close>

definition timer_inv :: "page \<Rightarrow> bool" where
  "timer_inv s =
     (length (intervals s) \<le> 1 \<and> list_all (\<lambda>(h, t). timer s = Some h) (intervals s) \<and>
      0 < nextHandle s \<and> (timer s = None \<or> 0 < the (timer s) \<and> the (timer s) < nextHandle s))"

text \<open>The user picks the button with a given label, or the first button, and the
  transition that the click schedules runs.\<close>

fun labelIndex :: "string \<Rightarrow> (string \<times> string) list \<Rightarrow> nat option" where
  "labelIndex label [] = None"
| "labelIndex label ((choice, nextNode) # buttons) =
     (if choice = label then Some 0 else map_option Suc (labelIndex label buttons))"

definition chooseLabel :: "variant \<Rightarrow> string \<Rightarrow> page \<Rightarrow> page" where
  "chooseLabel v label s =
     (case labelIndex label (choicesDiv s) of
        None \<Rightarrow> s
      | Some i \<Rightarrow> run v [ClickChoice i, Fire (length (pending s)) True] s)"

definition chooseFirst :: "variant \<Rightarrow> page \<Rightarrow> page" where
  "chooseFirst v s = run v [ClickChoice 0, Fire (length (pending s)) True] s"








text \<open>
  The keyword is heard in a recognition event when the lowercased transcript that the
  script examines contains "stop": the first script examines the transcripts of all results
  joined, the second each result from \<^verbatim>\<open>resultIndex\<close> on.
\<close>

fun stop_heard :: "variant \<Rightarrow> nat \<Rightarrow> string list \<Rightarrow> bool" where
  "stop_heard Script20 resultIndex results = includes_str (toLowerCase (concat results)) ''stop''"
| "stop_heard Script60 resultIndex results =
     list_ex (\<lambda>transcript. includes_str (toLowerCase transcript) ''stop'') (drop resultIndex results)"

section \<open>The countdown bookkeeping is an invariant\<close>

lemma createChoiceButtons_eq:
  "createChoiceButtons entries s =
     s\<lparr>choicesDiv := choicesDiv s @ filter (\<lambda>(choice, nextNode). storyNodes_at nextNode \<noteq> None) entries\<rparr>"
  by (induction entries arbitrary: s) auto

lemma timer_inv_clearInterval: "timer_inv s \<Longrightarrow> timer_inv (clearInterval h s)"
  by (cases h) (auto simp: timer_inv_def clearInterval_def list_all_iff intro: le_trans[OF length_filter_le])

lemma falsy_timer_idle: "timer_inv s \<Longrightarrow> \<not> truthy (timer s) \<Longrightarrow> intervals s = []"
  by (cases "intervals s") (auto simp: timer_inv_def truthy_def split: option.splits)

lemma intervals_clear_timer: "timer_inv s \<Longrightarrow> intervals (clearInterval (timer s) s) = []"
  by (cases "intervals s")
     (auto simp: timer_inv_def clearInterval_def filter_empty_conv split: option.splits)

lemma startTimer_fields:
  assumes "timer_inv s"
  shows "intervals (startTimer D s) = [(nextHandle s, D)]"
    and "timer (startTimer D s) = Some (nextHandle s)"
    and "timerContainer (startTimer D s) = Some D"
    and "nextHandle (startTimer D s) = Suc (nextHandle s)"
    and "screens (startTimer D s) = screens s"
proof -
  have e: "\<not> truthy (timer s) \<Longrightarrow> intervals s = []"
    using assms by (rule falsy_timer_idle)
  show "intervals (startTimer D s) = [(nextHandle s, D)]"
    using intervals_clear_timer[OF assms] e
    by (auto simp: startTimer_def Let_def updateTimerDisplay_def clearInterval_def split: option.splits)
  show "timer (startTimer D s) = Some (nextHandle s)"
    by (auto simp: startTimer_def Let_def updateTimerDisplay_def clearInterval_def split: option.splits)
  show "timerContainer (startTimer D s) = Some D"
    by (auto simp: startTimer_def Let_def updateTimerDisplay_def clearInterval_def split: option.splits)
  show "nextHandle (startTimer D s) = Suc (nextHandle s)"
    by (auto simp: startTimer_def Let_def updateTimerDisplay_def clearInterval_def split: option.splits)
  show "screens (startTimer D s) = screens s"
    by (auto simp: startTimer_def Let_def updateTimerDisplay_def clearInterval_def split: option.splits)
qed

lemma timer_inv_startTimer: "timer_inv s \<Longrightarrow> timer_inv (startTimer D s)"
  using startTimer_fields[of s D] by (simp add: timer_inv_def)


lemma timer_inv_timer_callback: "timer_inv s \<Longrightarrow> timer_inv (timer_callback h s)"
proof (cases "intervals s")
  case Nil
  then show "timer_inv s \<Longrightarrow> timer_inv (timer_callback h s)" by (simp add: timer_callback_def)
next
  case (Cons p ps)
  assume inv: "timer_inv s"
  with Cons obtain k t where s: "intervals s = [(k, t)]" "timer s = Some k"
    by (cases p) (auto simp: timer_inv_def)
  show "timer_inv (timer_callback h s)"
    using inv s
    by (auto simp: timer_callback_def timer_inv_def Let_def updateTimerDisplay_def
        showTimeUpScreen_def clearInterval_def)
qed

lemma timer_inv_updateDisplay: "timer_inv s \<Longrightarrow> timer_inv (updateDisplay k s)"
  by (simp add: updateDisplay_def timer_inv_def)

lemma timer_inv_restartGame: "timer_inv s \<Longrightarrow> timer_inv (restartGame s)"
proof -
  assume "timer_inv s"
  then have "timer_inv (s\<lparr>currentNodeKey := ''start'', currentChapter := ''Start''\<rparr>)"
    by (simp add: timer_inv_def)
  then show ?thesis
    unfolding restartGame_def by (intro timer_inv_updateDisplay timer_inv_clearInterval)
qed

lemma timer_inv_updateDisplay_callback:
  assumes "timer_inv s" shows "timer_inv (updateDisplay_callback D k s)"
proof -
  have a: "timer_inv (s\<lparr>uncaught := n\<rparr>)" for n using assms by (simp add: timer_inv_def)
  have b: "timer_inv (s\<lparr>storyDiv := x, progressSpan := y, choicesDiv := z\<rparr>)" for x y z
    using assms by (simp add: timer_inv_def)
  have c: "timer_inv (s\<lparr>storyDiv := x, progressSpan := y, choicesDiv := z, uncaught := n\<rparr>)" for x y z n
    using assms by (simp add: timer_inv_def)
  have d: "timer_inv (showEndingScreen k (s\<lparr>storyDiv := x, progressSpan := y, choicesDiv := z\<rparr>))" for x y z
    using assms by (simp add: timer_inv_def showEndingScreen_def)
  have e: "timer_inv (createChoiceButtons es (s\<lparr>storyDiv := x, progressSpan := y, choicesDiv := z\<rparr>))" for x y z es
    using assms by (simp add: timer_inv_def createChoiceButtons_eq)
  show ?thesis
    using a c d timer_inv_startTimer[OF e]
    by (simp add: updateDisplay_callback_def Let_def split: option.splits)
qed

lemma timer_inv_choice_onclick: "timer_inv s \<Longrightarrow> timer_inv (choice_onclick i s)"
  by (simp add: choice_onclick_def timer_inv_updateDisplay timer_inv_clearInterval)

lemma timer_inv_showPausePopup: "timer_inv s \<Longrightarrow> timer_inv (showPausePopup v s)"
  by (cases v)
     (auto simp: timer_inv_def Let_def clearInterval_def list_all_iff split: option.splits
           intro: le_trans[OF length_filter_le])


lemma timer_inv_removeScreen: "timer_inv (removeScreen i s) = timer_inv s"
  by (simp add: removeScreen_def timer_inv_def)

lemma timer_inv_unpause: "timer_inv (s\<lparr>isPaused := b\<rparr>) = timer_inv s"
  by (simp add: timer_inv_def)

lemma timer_inv_resumeBtn_click: "timer_inv s \<Longrightarrow> timer_inv (resumeBtn_click v i s)"
proof -
  assume "timer_inv s"
  then have "timer_inv (startTimer D ((removeScreen i s)\<lparr>isPaused := False\<rparr>))" for D
    by (simp add: timer_inv_startTimer timer_inv_unpause timer_inv_removeScreen)
  then show ?thesis by (cases v) (simp_all add: timer_inv_def Let_def)
qed

lemma timer_inv_restartBtn_click: "timer_inv s \<Longrightarrow> timer_inv (restartBtn_click v yes i s)"
proof -
  assume a: "timer_inv s"
  then have "timer_inv (restartGame ((removeScreen i s)\<lparr>isPaused := False\<rparr>))"
    by (simp add: timer_inv_restartGame timer_inv_unpause timer_inv_removeScreen)
  with a show ?thesis by (cases v) (simp_all add: timer_inv_def Let_def)
qed

lemma timer_inv_screen_click: "timer_inv s \<Longrightarrow> timer_inv (screen_click v scr b yes i s)"
  by (cases "(v, scr, b, yes, i, s)" rule: screen_click.cases)
     (simp_all add: timer_inv_resumeBtn_click timer_inv_restartBtn_click tryAgainBtn_click_def
        timer_inv_restartGame timer_inv_removeScreen, 
      simp_all add: menuBtn_click_def returnMenuBtn_click_def timer_inv_def)

lemma timer_inv_setupVoiceRecognition:
  "timer_inv (setupVoiceRecognition v supported ok s) = timer_inv s"
  by (cases v) (simp_all add: timer_inv_def Let_def)

lemma timer_inv_listener_call:
  "timer_inv (listener_call v supported ok resumeOk l s) = timer_inv s"
  by (cases v; cases l) (simp_all add: timer_inv_def Let_def)

lemma timer_inv_fold_listeners:
  "timer_inv (fold (listener_call v supported ok resumeOk) ls s) = timer_inv s"
  by (induction ls arbitrary: s) (simp_all add: timer_inv_listener_call)

lemma timer_inv_body_click: "timer_inv s \<Longrightarrow> timer_inv (body_click v supported ok resumeOk s)"
  by (simp add: body_click_def timer_inv_fold_listeners) (simp add: timer_inv_def)

lemma timer_inv_task_run: "timer_inv s \<Longrightarrow> timer_inv (task_run v ok t s)"
  by (cases t) (simp_all add: timer_inv_updateDisplay_callback, simp_all add: timer_inv_def)

lemma timer_inv_heartbeat_callback: "timer_inv s \<Longrightarrow> timer_inv (heartbeat_callback h now s)"
  by (simp add: heartbeat_callback_def timer_inv_def)

lemma timer_inv_setupRecognitionHeartbeat: "timer_inv s \<Longrightarrow> timer_inv (setupRecognitionHeartbeat s)"
proof -
  assume a: "timer_inv s"
  let ?s1 = "if truthy (recognitionHeartbeat s) then clearInterval (recognitionHeartbeat s) s else s"
  have "timer_inv ?s1" using a by (simp add: timer_inv_clearInterval)
  then show ?thesis
    unfolding setupRecognitionHeartbeat_def Let_def
    by (auto simp: timer_inv_def less_Suc_eq split: if_splits)
qed

lemma timer_inv_recognition_onstart: "timer_inv s \<Longrightarrow> timer_inv (recognition_onstart v now s)"
proof (cases v)
  case Script20
  assume "timer_inv s" then show ?thesis using Script20 by (simp add: timer_inv_def)
next
  case Script60
  assume "timer_inv s"
  then have "timer_inv (s\<lparr>isListening := True, lastRecognitionTime := now\<rparr>)" by (simp add: timer_inv_def)
  then show ?thesis using Script60 by (simp add: timer_inv_setupRecognitionHeartbeat)
qed

lemma timer_inv_recognition_onend: "timer_inv s \<Longrightarrow> timer_inv (recognition_onend v ok s)"
  by (cases v) (simp_all add: timer_inv_def Let_def)

lemma timer_inv_onresult_loop: "timer_inv s \<Longrightarrow> timer_inv (onresult_loop rs s)"
  by (induction rs) (simp_all add: timer_inv_showPausePopup del: showPausePopup.simps)

lemma timer_inv_recognition_onresult:
  "timer_inv s \<Longrightarrow> timer_inv (recognition_onresult v now idx rs s)"
proof (cases v)
  case Script20
  assume "timer_inv s" then show ?thesis using Script20
    by (simp add: timer_inv_showPausePopup del: showPausePopup.simps)
next
  case Script60
  assume "timer_inv s"
  then have "timer_inv (s\<lparr>recognitionRestartAttempts := 0, lastRecognitionTime := now\<rparr>)"
    by (simp add: timer_inv_def)
  then show ?thesis using Script60 by (simp add: timer_inv_onresult_loop)
qed

lemma timer_inv_recognition_onerror: "timer_inv s \<Longrightarrow> timer_inv (recognition_onerror v err s)"
  by (cases v) (simp_all add: timer_inv_def Let_def)

lemma timer_inv_step: "timer_inv s \<Longrightarrow> timer_inv (step v e s)"
proof (cases e)
  case (Fire i ok)
  assume a: "timer_inv s"
  then have "timer_inv (s\<lparr>pending := p\<rparr>)" for p by (simp add: timer_inv_def)
  with a show ?thesis using Fire by (simp add: timer_inv_task_run)
qed (simp_all add: timer_inv_timer_callback timer_inv_heartbeat_callback timer_inv_choice_onclick
      timer_inv_screen_click timer_inv_body_click timer_inv_restartGame timer_inv_recognition_onstart
      timer_inv_recognition_onend timer_inv_recognition_onresult timer_inv_recognition_onerror,
     simp_all add: menuBtn_click_def timer_inv_def)

lemma timer_inv_run: "timer_inv s \<Longrightarrow> timer_inv (run v es s)"
  by (induction es arbitrary: s) (simp_all add: timer_inv_step)

lemma timer_inv_window_onload: "timer_inv (window_onload v)"
  by (simp add: window_onload_def updateDisplay_def initialPage_def timer_inv_def)

lemma timer_inv_reachable: "timer_inv (run v es (window_onload v))"
  by (simp add: timer_inv_run timer_inv_window_onload)


lemma timer_callback_idle: "intervals s = [] \<Longrightarrow> timer_callback h s = s"
  by (simp add: timer_callback_def)

lemma ticks_idle: "intervals s = [] \<Longrightarrow> run v (map Tick hs) s = s"
  by (induction hs) (simp_all add: timer_callback_idle)

lemma timer_callback_running:
  assumes "timer s = Some h" "intervals s = [(h, k)]" "1 < k"
  shows "timer (timer_callback h s) = Some h"
    and "intervals (timer_callback h s) = [(h, k - 1)]"
    and "timerContainer (timer_callback h s) = Some (k - 1)"
    and "screens (timer_callback h s) = screens s"
  using assms by (simp_all add: timer_callback_def Let_def updateTimerDisplay_def)

lemma timer_callback_last:
  assumes "timer s = Some h" "intervals s = [(h, k)]" "k \<le> 1"
  shows "intervals (timer_callback h s) = []"
    and "timerContainer (timer_callback h s) = None"
    and "screens (timer_callback h s) = screens s @ [TimeUpScreen]"
  using assms
  by (simp_all add: timer_callback_def Let_def updateTimerDisplay_def clearInterval_def
      showTimeUpScreen_def)

lemma countdown:
  assumes "timer s = Some h" "intervals s = [(h, k)]" "timerContainer s = Some k" "1 \<le> k"
  shows "(int n < k \<longrightarrow>
            intervals (run v (replicate n (Tick h)) s) = [(h, k - int n)] \<and>
            timerContainer (run v (replicate n (Tick h)) s) = Some (k - int n) \<and>
            screens (run v (replicate n (Tick h)) s) = screens s) \<and>
         (k \<le> int n \<longrightarrow>
            intervals (run v (replicate n (Tick h)) s) = [] \<and>
            timerContainer (run v (replicate n (Tick h)) s) = None \<and>
            screens (run v (replicate n (Tick h)) s) = screens s @ [TimeUpScreen])"
  using assms
proof (induction n arbitrary: s k)
  case 0
  then show ?case by simp
next
  case (Suc n)
  show ?case
  proof (cases "1 < k")
    case True
    note r = timer_callback_running[OF Suc.prems(1,2) True]
    have "1 \<le> k - 1" using True by simp
    from Suc.IH[OF r(1) r(2) r(3) this] r(4) show ?thesis by auto
  next
    case False
    then have k: "k = 1" using Suc.prems(4) by simp
    have "k \<le> 1" using k by simp
    note l = timer_callback_last[OF Suc.prems(1,2) this]
    have "run v (replicate n (Tick h)) (timer_callback h s) = timer_callback h s"
      using ticks_idle[OF l(1), of v "replicate n h"] by simp
    with l k show ?thesis by simp
  qed
qed

section \<open>Expiry and restart of the countdown\<close>

text \<open>Definitions to unfold when a run is evaluated on a concrete page.\<close>

lemmas eval_defs = window_onload_def initialPage_def updateDisplay_def updateDisplay_callback_def
  storyNodes_at_def storyNodes_def startTimer_def updateTimerDisplay_def truthy_def clearInterval_def
  timer_callback_def showTimeUpScreen_def showEndingScreen_def choice_onclick_def restartGame_def
  Let_def

text \<open>
  Claim C2. A timer started with duration \<open>D\<close> (at least one second) on a page reached by
  any sequence of events, and then left to tick with nothing else happening, shows the
  time-up screen exactly once: after \<open>n\<close> ticks no such screen has been added while
  \<open>n < D\<close> and the interval then still runs with \<open>D - n\<close> seconds left; exactly one has
  been added once \<open>n \<ge> D\<close>, and the interval is then cleared, however many further
  ticks are due.
\<close>

theorem timer_expires_exactly_once:
  assumes "1 \<le> D"
  shows "count_list (screens (run v (replicate n (Tick (nextHandle (run v es (window_onload v)))))
                        (startTimer D (run v es (window_onload v))))) TimeUpScreen =
           count_list (screens (run v es (window_onload v))) TimeUpScreen + (if D \<le> int n then 1 else 0) \<and>
         (D \<le> int n \<longrightarrow>
            intervals (run v (replicate n (Tick (nextHandle (run v es (window_onload v)))))
                        (startTimer D (run v es (window_onload v)))) = []) \<and>
         (int n < D \<longrightarrow>
            intervals (run v (replicate n (Tick (nextHandle (run v es (window_onload v)))))
                        (startTimer D (run v es (window_onload v)))) =
              [(nextHandle (run v es (window_onload v)), D - int n)])"
proof -
  let ?s = "run v es (window_onload v)"
  have inv: "timer_inv ?s" by (rule timer_inv_reachable)
  note f = startTimer_fields[OF inv, of D]
  from countdown[OF f(2) f(1) f(3) assms, of n v] f(5)
  show ?thesis by (cases "D \<le> int n") auto
qed

theorem timer_expires_exactly_once_witness:
  "(1::int) \<le> 20 \<and>
   count_list (screens (run Script20 (replicate 19 (Tick 1)) (startTimer 20 (window_onload Script20)))) TimeUpScreen = 0 \<and>
   count_list (screens (run Script20 (replicate 20 (Tick 1)) (startTimer 20 (window_onload Script20)))) TimeUpScreen = 1 \<and>
   count_list (screens (run Script20 (replicate 25 (Tick 1)) (startTimer 20 (window_onload Script20)))) TimeUpScreen = 1 \<and>
   intervals (run Script20 (replicate 20 (Tick 1)) (startTimer 20 (window_onload Script20))) = []"
proof -
  have h: "(1::int) \<le> 20" by simp
  have n: "nextHandle (run Script20 [] (window_onload Script20)) = 1"
    and s: "screens (run Script20 [] (window_onload Script20)) = []"
    by (simp_all add: window_onload_def initialPage_def updateDisplay_def)
  show ?thesis
    using timer_expires_exactly_once[OF h, of Script20 19 "[]"]
      timer_expires_exactly_once[OF h, of Script20 20 "[]"]
      timer_expires_exactly_once[OF h, of Script20 25 "[]"] n s
    by simp
qed

text \<open>
  Claim C6. On every page reached from \<^verbatim>\<open>window.onload\<close> by any sequence of events at
  most one countdown interval is running. Starting a countdown there leaves exactly one
  interval running, the new one under a handle that no earlier interval had, with the full
  new duration \<open>D\<close> as its remaining time, and the display shows \<open>D\<close>.
\<close>

theorem one_timer_at_a_time:
  "length (intervals (run v es (window_onload v))) \<le> 1 \<and>
   nextHandle (run v es (window_onload v)) \<notin> fst ` set (intervals (run v es (window_onload v))) \<and>
   intervals (startTimer D (run v es (window_onload v))) = [(nextHandle (run v es (window_onload v)), D)] \<and>
   timerContainer (startTimer D (run v es (window_onload v))) = Some D"
proof -
  let ?s = "run v es (window_onload v)"
  have inv: "timer_inv ?s" by (rule timer_inv_reachable)
  have "nextHandle ?s \<notin> fst ` set (intervals ?s)"
    using inv by (cases "intervals ?s") (auto simp: timer_inv_def)
  moreover have "length (intervals ?s) \<le> 1" using inv by (simp add: timer_inv_def)
  ultimately show ?thesis using startTimer_fields[OF inv] by simp
qed

theorem one_timer_at_a_time_witness:
  "intervals (run Script20 [Fire 0 True] (window_onload Script20)) = [(1, 20)] \<and>
   intervals (startTimer 60 (run Script20 [Fire 0 True] (window_onload Script20))) = [(2, 60)] \<and>
   timerContainer (startTimer 60 (run Script20 [Fire 0 True] (window_onload Script20))) = Some 60"
  using one_timer_at_a_time[of Script20 "[Fire 0 True]" 60] 
  by (simp add: eval_defs)

section \<open>Rendering a node\<close>

lemma choicesDiv_startTimer: "choicesDiv (startTimer D s) = choicesDiv s"
  by (simp add: startTimer_def Let_def updateTimerDisplay_def clearInterval_def split: option.splits)

lemma uncaught_startTimer: "uncaught (startTimer D s) = uncaught s"
  by (simp add: startTimer_def Let_def updateTimerDisplay_def clearInterval_def split: option.splits)

lemma rendered_choices:
  "storyNodes_at key = Some N \<Longrightarrow> \<not> ending N \<Longrightarrow> choices N = Some entries \<Longrightarrow>
   choicesDiv (updateDisplay_callback D key s) =
     filter (\<lambda>(choice, nextNode). storyNodes_at nextNode \<noteq> None) entries"
  by (simp add: updateDisplay_callback_def Let_def choicesDiv_startTimer createChoiceButtons_eq)

lemma rendered_ending:
  "storyNodes_at key = Some N \<Longrightarrow> ending N \<Longrightarrow> choicesDiv (updateDisplay_callback D key s) = []"
  by (simp add: updateDisplay_callback_def Let_def showEndingScreen_def)

lemma nodes_complete: "list_all (\<lambda>(key, N). ending N \<or> choices N \<noteq> None) storyNodes"
  by (simp add: storyNodes_def)

lemma node_complete: "storyNodes_at key = Some N \<Longrightarrow> ending N \<or> choices N \<noteq> None"
  using nodes_complete by (auto simp: storyNodes_at_def list_all_iff dest!: map_of_SomeD)

lemma uncaught_render:
  "storyNodes_at key = Some N \<Longrightarrow> uncaught (updateDisplay_callback D key s) = uncaught s"
  using node_complete[of key N]
  by (auto simp: updateDisplay_callback_def Let_def showEndingScreen_def uncaught_startTimer
      createChoiceButtons_eq)

text \<open>
  Claim C1. Let \<open>N\<close> be a node of the story graph and \<open>(label, target)\<close> one of its
  declared choices. Rendering \<open>N\<close> throws nothing; it shows only declared choices; if
  \<open>target\<close> is not a key of the graph the choice is not among the buttons; and if it is
  a key, the choice is among them unless \<open>N\<close> is an ending.
\<close>

theorem missing_targets_are_dropped:
  assumes "storyNodes_at key = Some N" "choices N = Some entries" "(label, target) \<in> set entries"
  shows "uncaught (updateDisplay_callback D key s) = uncaught s \<and>
         set (choicesDiv (updateDisplay_callback D key s)) \<subseteq> set entries \<and>
         (if storyNodes_at target = None
          then (label, target) \<notin> set (choicesDiv (updateDisplay_callback D key s))
          else ending N \<or> (label, target) \<in> set (choicesDiv (updateDisplay_callback D key s)))"
proof (cases "ending N")
  case True
  then show ?thesis using assms uncaught_render[OF assms(1)] rendered_ending[OF assms(1)] by simp
next
  case False
  then show ?thesis
    using assms uncaught_render[OF assms(1)] rendered_choices[OF assms(1) False assms(2)] by auto
qed

lemma at_morning: "storyNodes_at ''morning-after'' = Some \<lparr>choices = Some [(''Destroy Computer'', ''destroy-computer''), (''Hit Desk'', ''hit-desk'')], ending = False\<rparr>"
  by (simp add: storyNodes_at_def storyNodes_def)

theorem missing_targets_are_dropped_witness:
  "storyNodes_at ''destroy-computer'' = None \<and>
   uncaught (updateDisplay_callback 20 ''morning-after'' initialPage) = uncaught initialPage \<and>
   (''Destroy Computer'', ''destroy-computer'') \<notin> set (choicesDiv (updateDisplay_callback 20 ''morning-after'' initialPage))"
proof -
  have t: "storyNodes_at ''destroy-computer'' = None" by (simp add: storyNodes_at_def storyNodes_def)
  show ?thesis
    using missing_targets_are_dropped[OF at_morning, of "[(''Destroy Computer'', ''destroy-computer''), (''Hit Desk'', ''hit-desk'')]"
       "''Destroy Computer''" "''destroy-computer''" 20 initialPage] t
    by simp
qed

lemma missing_keys:
  "storyNodes_at ''destroy-computer'' = None" "storyNodes_at ''flush-pills'' = None"
  "storyNodes_at ''stop-info'' = None" "storyNodes_at ''fight-em'' = None"
  by (simp_all add: storyNodes_at_def storyNodes_def)

lemma declared:
  "Option.bind (storyNodes_at ''morning-after'') choices =
     Some [(''Destroy Computer'', ''destroy-computer''), (''Hit Desk'', ''hit-desk'')]"
  "Option.bind (storyNodes_at ''bite-nails'') choices =
     Some [(''Take pills'', ''take-pills''), (''Flush pills'', ''flush-pills''), (''Throw pills away'', ''throw-pills'')]"
  "Option.bind (storyNodes_at ''pull-earlobe'') choices =
     Some [(''Take pills'', ''take-pills''), (''Flush pills'', ''flush-pills''), (''Throw pills away'', ''throw-pills'')]"
  "Option.bind (storyNodes_at ''netflix-path'') choices =
     Some [(''Give more info'', ''more-info''), (''Stop'', ''stop-info'')]"
  "Option.bind (storyNodes_at ''therapy-fight'') choices =
     Some [(''Yeah'', ''yeah-fight''), (''FUCK 'EM'', ''fight-em'')]"
  by (simp_all add: storyNodes_at_def storyNodes_def)

lemma shown:
  "choicesDiv (updateDisplay_callback D ''morning-after'' s) = [(''Hit Desk'', ''hit-desk'')]"
  "choicesDiv (updateDisplay_callback D ''bite-nails'' s) =
     [(''Take pills'', ''take-pills''), (''Throw pills away'', ''throw-pills'')]"
  "choicesDiv (updateDisplay_callback D ''pull-earlobe'' s) =
     [(''Take pills'', ''take-pills''), (''Throw pills away'', ''throw-pills'')]"
  "choicesDiv (updateDisplay_callback D ''netflix-path'' s) = [(''Give more info'', ''more-info'')]"
  "choicesDiv (updateDisplay_callback D ''therapy-fight'' s) = [(''Yeah'', ''yeah-fight'')]"
  by (simp_all add: updateDisplay_callback_def Let_def choicesDiv_startTimer createChoiceButtons_eq
      storyNodes_at_def storyNodes_def)

text \<open>
  Claim C10. The targets \<^verbatim>\<open>destroy-computer\<close>, \<^verbatim>\<open>flush-pills\<close>, \<^verbatim>\<open>stop-info\<close> and
  \<^verbatim>\<open>fight-em\<close> are not keys of the shipped graph. For each of the nodes
  \<^verbatim>\<open>morning-after\<close>, \<^verbatim>\<open>bite-nails\<close>, \<^verbatim>\<open>pull-earlobe\<close>, \<^verbatim>\<open>netflix-path\<close> and
  \<^verbatim>\<open>therapy-fight\<close> the theorem gives the declared choices and the buttons rendered,
  which are the declared ones without the choice that leads to a missing key;
  \<^verbatim>\<open>morning-after\<close> renders only "Hit Desk".
\<close>

theorem shipped_graph_has_dangling_targets:
  "storyNodes_at ''destroy-computer'' = None \<and> storyNodes_at ''flush-pills'' = None \<and>
   storyNodes_at ''stop-info'' = None \<and> storyNodes_at ''fight-em'' = None \<and>
   Option.bind (storyNodes_at ''morning-after'') choices =
     Some [(''Destroy Computer'', ''destroy-computer''), (''Hit Desk'', ''hit-desk'')] \<and>
   choicesDiv (updateDisplay_callback D ''morning-after'' s) = [(''Hit Desk'', ''hit-desk'')] \<and>
   Option.bind (storyNodes_at ''bite-nails'') choices =
     Some [(''Take pills'', ''take-pills''), (''Flush pills'', ''flush-pills''), (''Throw pills away'', ''throw-pills'')] \<and>
   choicesDiv (updateDisplay_callback D ''bite-nails'' s) =
     [(''Take pills'', ''take-pills''), (''Throw pills away'', ''throw-pills'')] \<and>
   Option.bind (storyNodes_at ''pull-earlobe'') choices =
     Some [(''Take pills'', ''take-pills''), (''Flush pills'', ''flush-pills''), (''Throw pills away'', ''throw-pills'')] \<and>
   choicesDiv (updateDisplay_callback D ''pull-earlobe'' s) =
     [(''Take pills'', ''take-pills''), (''Throw pills away'', ''throw-pills'')] \<and>
   Option.bind (storyNodes_at ''netflix-path'') choices =
     Some [(''Give more info'', ''more-info''), (''Stop'', ''stop-info'')] \<and>
   choicesDiv (updateDisplay_callback D ''netflix-path'' s) = [(''Give more info'', ''more-info'')] \<and>
   Option.bind (storyNodes_at ''therapy-fight'') choices =
     Some [(''Yeah'', ''yeah-fight''), (''FUCK 'EM'', ''fight-em'')] \<and>
   choicesDiv (updateDisplay_callback D ''therapy-fight'' s) = [(''Yeah'', ''yeah-fight'')]"
  by (simp only: missing_keys declared shown simp_thms)

theorem shipped_graph_has_dangling_targets_witness:
  "storyNodes_at ''destroy-computer'' = None \<and>
   choicesDiv (updateDisplay_callback 20 ''morning-after'' (window_onload Script20)) = [(''Hit Desk'', ''hit-desk'')]"
  using shipped_graph_has_dangling_targets[of 20 "window_onload Script20"] by simp

section \<open>Walking the graph\<close>

lemma shown_start:
  "run v [Fire 0 True] (window_onload v) =
     initialPage\<lparr>bodyClick := [SetupListener], storyDiv := Some ''start'', progressSpan := ''Chapter: Start'',
        choicesDiv := [(''Sugar Puffs'', ''breakfast''), (''Frosties'', ''breakfast'')],
        timerContainer := Some (CHOICE_TIME v), intervals := [(1, CHOICE_TIME v)], nextHandle := 2,
        timer := Some 1\<rparr>"
  by (simp add: eval_defs)



lemma fields_startTimer:
  "storyDiv (startTimer D s) = storyDiv s" "pending (startTimer D s) = pending s"
  by (simp_all add: startTimer_def Let_def updateTimerDisplay_def clearInterval_def split: option.splits)

lemma screens_startTimer: "screens (startTimer D s) = screens s"
  by (simp add: startTimer_def Let_def updateTimerDisplay_def clearInterval_def split: option.splits)

lemma fields_clearInterval:
  "storyDiv (clearInterval h s) = storyDiv s" "pending (clearInterval h s) = pending s"
  "uncaught (clearInterval h s) = uncaught s" "screens (clearInterval h s) = screens s"
  "choicesDiv (clearInterval h s) = choicesDiv s"
  by (simp_all add: clearInterval_def split: option.splits)

lemma transition:
  assumes "pending s = []" "i < length (choicesDiv s)" "snd (choicesDiv s ! i) = key"
    "storyNodes_at key = Some N" "\<not> ending N" "choices N = Some entries"
  shows "storyDiv (run v [ClickChoice i, Fire 0 True] s) = Some key \<and>
         choicesDiv (run v [ClickChoice i, Fire 0 True] s) =
           filter (\<lambda>(choice, nextNode). storyNodes_at nextNode \<noteq> None) entries \<and>
         pending (run v [ClickChoice i, Fire 0 True] s) = [] \<and>
         uncaught (run v [ClickChoice i, Fire 0 True] s) = uncaught s \<and>
         screens (run v [ClickChoice i, Fire 0 True] s) = screens s"
  using assms
  by (simp add: choice_onclick_def updateDisplay_def fields_clearInterval updateDisplay_callback_def
      Let_def fields_startTimer screens_startTimer choicesDiv_startTimer uncaught_startTimer
      createChoiceButtons_eq)


lemma path_nodes:
  "storyNodes_at ''breakfast'' =
     Some \<lparr>choices = Some [(''YES'', ''tuckersoft-memory''), (''NO'', ''therapy-session'')], ending = False\<rparr>"
  "storyNodes_at ''tuckersoft-memory'' =
     Some \<lparr>choices = Some [(''Continue'', ''therapy-session'')], ending = False\<rparr>"
  "storyNodes_at ''therapy-session'' =
     Some \<lparr>choices = Some [(''Talk about past trauma'', ''talk-trauma''), (''Don't talk about it'', ''dont-talk'')],
           ending = False\<rparr>"
  "storyNodes_at ''talk-trauma'' = Some \<lparr>choices = Some [(''Continue'', ''record-store'')], ending = False\<rparr>"
  "storyNodes_at ''record-store'' =
     Some \<lparr>choices = Some [(''Phaedra'', ''pour-tea''), (''The Bermuda Triangle'', ''bermuda-path'')], ending = False\<rparr>"
  by (simp_all add: storyNodes_at_def storyNodes_def)

lemma path_targets:
  "storyNodes_at ''dont-talk'' \<noteq> None" "storyNodes_at ''pour-tea'' \<noteq> None"
  "storyNodes_at ''bermuda-path'' \<noteq> None"
  by (simp_all add: storyNodes_at_def storyNodes_def)

text \<open>
  Claim C8. From the rendered node \<^verbatim>\<open>start\<close>, choosing "Sugar Puffs", then "YES", then
  three times the first button, shows in turn \<^verbatim>\<open>breakfast\<close>, \<^verbatim>\<open>tuckersoft-memory\<close>,
  \<^verbatim>\<open>therapy-session\<close>, \<^verbatim>\<open>talk-trauma\<close> and \<^verbatim>\<open>record-store\<close>, in either script,
  with no exception and no overlay on the way.
\<close>

theorem therapy_branch_reaches_record_store:
  "(let s0 = run v [Fire 0 True] (window_onload v);
        s1 = chooseLabel v ''Sugar Puffs'' s0;
        s2 = chooseLabel v ''YES'' s1;
        s3 = chooseFirst v s2;
        s4 = chooseFirst v s3;
        s5 = chooseFirst v s4
    in map storyDiv [s0, s1, s2, s3, s4, s5] =
         [Some ''start'', Some ''breakfast'', Some ''tuckersoft-memory'', Some ''therapy-session'',
          Some ''talk-trauma'', Some ''record-store''] \<and>
       map (map fst \<circ> choicesDiv) [s2, s3, s4] =
         [[''Continue''], [''Talk about past trauma'', ''Don't talk about it''], [''Continue'']] \<and>
       uncaught s5 = 0 \<and> screens s5 = [])"
proof -
  define s0 where "s0 = run v [Fire 0 True] (window_onload v)"
  define s1 where "s1 = chooseLabel v ''Sugar Puffs'' s0"
  define s2 where "s2 = chooseLabel v ''YES'' s1"
  define s3 where "s3 = chooseFirst v s2"
  define s4 where "s4 = chooseFirst v s3"
  define s5 where "s5 = chooseFirst v s4"
  have p0: "storyDiv s0 = Some ''start''" "pending s0 = []" "uncaught s0 = 0" "screens s0 = []"
    "choicesDiv s0 = [(''Sugar Puffs'', ''breakfast''), (''Frosties'', ''breakfast'')]"
    unfolding s0_def shown_start by (simp_all add: initialPage_def)
  have e1: "s1 = run v [ClickChoice 0, Fire 0 True] s0"
    unfolding s1_def chooseLabel_def by (simp add: p0)
  have p1: "storyDiv s1 = Some ''breakfast''" "pending s1 = []" "uncaught s1 = 0" "screens s1 = []"
    "choicesDiv s1 = [(''YES'', ''tuckersoft-memory''), (''NO'', ''therapy-session'')]"
    unfolding e1
    using transition[of s0 0 "''breakfast''" _ _ v, OF p0(2) _ _ path_nodes(1)]
    by (simp_all add: p0 path_nodes)
  have e2: "s2 = run v [ClickChoice 0, Fire 0 True] s1"
    unfolding s2_def chooseLabel_def by (simp add: p1)
  have p2: "storyDiv s2 = Some ''tuckersoft-memory''" "pending s2 = []" "uncaught s2 = 0"
    "screens s2 = []" "choicesDiv s2 = [(''Continue'', ''therapy-session'')]"
    unfolding e2
    using transition[of s1 0 "''tuckersoft-memory''" _ _ v, OF p1(2) _ _ path_nodes(2)]
    by (simp_all add: p1 path_nodes)
  have e3: "s3 = run v [ClickChoice 0, Fire 0 True] s2"
    unfolding s3_def chooseFirst_def by (simp add: p2)
  have p3: "storyDiv s3 = Some ''therapy-session''" "pending s3 = []" "uncaught s3 = 0"
    "screens s3 = []"
    "choicesDiv s3 = [(''Talk about past trauma'', ''talk-trauma''), (''Don't talk about it'', ''dont-talk'')]"
    unfolding e3
    using transition[of s2 0 "''therapy-session''" _ _ v, OF p2(2) _ _ path_nodes(3)] path_targets
    by (simp_all add: p2 path_nodes)
  have e4: "s4 = run v [ClickChoice 0, Fire 0 True] s3"
    unfolding s4_def chooseFirst_def by (simp add: p3)
  have p4: "storyDiv s4 = Some ''talk-trauma''" "pending s4 = []" "uncaught s4 = 0"
    "screens s4 = []" "choicesDiv s4 = [(''Continue'', ''record-store'')]"
    unfolding e4
    using transition[of s3 0 "''talk-trauma''" _ _ v, OF p3(2) _ _ path_nodes(4)]
    by (simp_all add: p3 path_nodes)
  have e5: "s5 = run v [ClickChoice 0, Fire 0 True] s4"
    unfolding s5_def chooseFirst_def by (simp add: p4)
  have p5: "storyDiv s5 = Some ''record-store''" "uncaught s5 = 0" "screens s5 = []"
    unfolding e5
    using transition[of s4 0 "''record-store''" _ _ v, OF p4(2) _ _ path_nodes(5)] path_targets
    by (simp_all add: p4 path_nodes)
  have "map storyDiv [s0, s1, s2, s3, s4, s5] =
         [Some ''start'', Some ''breakfast'', Some ''tuckersoft-memory'', Some ''therapy-session'',
          Some ''talk-trauma'', Some ''record-store''] \<and>
       map (map fst \<circ> choicesDiv) [s2, s3, s4] =
         [[''Continue''], [''Talk about past trauma'', ''Don't talk about it''], [''Continue'']] \<and>
       uncaught s5 = 0 \<and> screens s5 = []"
    by (simp add: p0 p1 p2 p3 p4 p5)
  then show ?thesis
    unfolding Let_def s0_def s1_def s2_def s3_def s4_def s5_def .
qed

theorem therapy_branch_reaches_record_store_witness:
  "storyDiv (chooseFirst Script20 (chooseFirst Script20 (chooseFirst Script20
      (chooseLabel Script20 ''YES'' (chooseLabel Script20 ''Sugar Puffs''
         (run Script20 [Fire 0 True] (window_onload Script20))))))) = Some ''record-store''"
  using therapy_branch_reaches_record_store[of Script20] by (simp add: Let_def)

lemma at_start:
  "storyNodes_at ''start'' =
     Some \<lparr>choices = Some [(''Sugar Puffs'', ''breakfast''), (''Frosties'', ''breakfast'')], ending = False\<rparr>"
  by (simp add: storyNodes_at_def storyNodes_def)

lemma timerContainer_startTimer: "timerContainer (startTimer D s) = Some D"
  by (simp add: startTimer_def Let_def updateTimerDisplay_def)

lemma render_start:
  "storyDiv (updateDisplay_callback D ''start'' s) = Some ''start'' \<and>
   choicesDiv (updateDisplay_callback D ''start'' s) =
     [(''Sugar Puffs'', ''breakfast''), (''Frosties'', ''breakfast'')] \<and>
   timerContainer (updateDisplay_callback D ''start'' s) = Some D"
  by (simp add: updateDisplay_callback_def at_start Let_def fields_startTimer choicesDiv_startTimer
      timerContainer_startTimer createChoiceButtons_eq path_nodes)

lemma restartGame_effect:
  "pending (restartGame s) = pending s @ [UpdateDisplayTask ''start''] \<and>
   currentNodeKey (restartGame s) = ''start'' \<and> currentChapter (restartGame s) = ''Start'' \<and>
   screens (restartGame s) = screens s \<and>
   intervals (restartGame s) = filter (\<lambda>(i, t). Some i \<noteq> timer s) (intervals s)"
proof (cases "timer s")
  case None
  then show ?thesis by (simp add: restartGame_def updateDisplay_def clearInterval_def)
next
  case (Some h)
  have "(\<lambda>(i, t). i \<noteq> h) = (\<lambda>(i :: nat, t :: int). h \<noteq> i)" by auto
  with Some show ?thesis by (simp add: restartGame_def updateDisplay_def clearInterval_def)
qed

lemma timer_inv_filter:
  "timer_inv s \<Longrightarrow> filter (\<lambda>(i, t). Some i \<noteq> timer s) (intervals s) = []"
  by (auto simp: timer_inv_def list_all_iff filter_empty_conv)

text \<open>
  Claim C7. Rendering a node whose \<^verbatim>\<open>ending\<close> flag is set creates no choice button,
  starts no timer and schedules nothing; it adds one ending overlay, whose buttons are
  Try Again and Return to Menu and no other. Try Again removes the overlay, sets the
  current node and chapter back to the start, clears the interval that \<^verbatim>\<open>timer\<close> holds
  (so none is left running when the countdown bookkeeping is consistent) and schedules the
  rendering of \<^verbatim>\<open>start\<close>; when that runs the page shows \<^verbatim>\<open>start\<close> with its two
  choices and a full countdown. Return to Menu navigates to \<^verbatim>\<open>index.html\<close>. A click on
  any other kind of button of that overlay does nothing.
\<close>

theorem ending_node_offers_retry_and_return:
  assumes "storyNodes_at key = Some N" "ending N"
  shows "storyDiv (updateDisplay_callback D key s) = Some key \<and>
         choicesDiv (updateDisplay_callback D key s) = [] \<and>
         screens (updateDisplay_callback D key s) = screens s @ [EndingScreen key] \<and>
         screen_buttons (EndingScreen key) = [TryAgainBtn, ReturnMenuBtn] \<and>
         intervals (updateDisplay_callback D key s) = intervals s \<and>
         pending (updateDisplay_callback D key s) = pending s \<and>
         uncaught (updateDisplay_callback D key s) = uncaught s \<and>
         screens (step v (ClickScreen (length (screens s)) TryAgainBtn yes)
                    (updateDisplay_callback D key s)) = screens s \<and>
         pending (step v (ClickScreen (length (screens s)) TryAgainBtn yes)
                    (updateDisplay_callback D key s)) = pending s @ [UpdateDisplayTask ''start''] \<and>
         currentNodeKey (step v (ClickScreen (length (screens s)) TryAgainBtn yes)
                    (updateDisplay_callback D key s)) = ''start'' \<and>
         currentChapter (step v (ClickScreen (length (screens s)) TryAgainBtn yes)
                    (updateDisplay_callback D key s)) = ''Start'' \<and>
         intervals (step v (ClickScreen (length (screens s)) TryAgainBtn yes)
                    (updateDisplay_callback D key s)) =
           filter (\<lambda>(i, t). Some i \<noteq> timer s) (intervals s) \<and>
         (timer_inv s \<longrightarrow>
            intervals (step v (ClickScreen (length (screens s)) TryAgainBtn yes)
                         (updateDisplay_callback D key s)) = []) \<and>
         storyDiv (run v [ClickScreen (length (screens s)) TryAgainBtn yes, Fire (length (pending s)) True]
                     (updateDisplay_callback D key s)) = Some ''start'' \<and>
         choicesDiv (run v [ClickScreen (length (screens s)) TryAgainBtn yes, Fire (length (pending s)) True]
                     (updateDisplay_callback D key s)) =
           [(''Sugar Puffs'', ''breakfast''), (''Frosties'', ''breakfast'')] \<and>
         timerContainer (run v [ClickScreen (length (screens s)) TryAgainBtn yes, Fire (length (pending s)) True]
                     (updateDisplay_callback D key s)) = Some (CHOICE_TIME v) \<and>
         step v (ClickScreen (length (screens s)) ReturnMenuBtn yes) (updateDisplay_callback D key s) =
           (updateDisplay_callback D key s)\<lparr>location := Some ''index.html''\<rparr> \<and>
         step v (ClickScreen (length (screens s)) ResumeBtn yes) (updateDisplay_callback D key s) =
           updateDisplay_callback D key s \<and>
         step v (ClickScreen (length (screens s)) RestartBtn yes) (updateDisplay_callback D key s) =
           updateDisplay_callback D key s \<and>
         step v (ClickScreen (length (screens s)) MenuBtn yes) (updateDisplay_callback D key s) =
           updateDisplay_callback D key s"
proof -
  define c where "c = updateDisplay_callback D key s"
  define r where "r = step v (ClickScreen (length (screens s)) TryAgainBtn yes) c"
  have e: "c = s\<lparr>storyDiv := Some key, progressSpan := ''Chapter: '' @ currentChapter s, choicesDiv := [],
         screens := screens s @ [EndingScreen key]\<rparr>"
    unfolding c_def using assms by (simp add: updateDisplay_callback_def Let_def showEndingScreen_def)
  have render: "storyDiv c = Some key \<and> choicesDiv c = [] \<and> screens c = screens s @ [EndingScreen key] \<and>
      screen_buttons (EndingScreen key) = [TryAgainBtn, ReturnMenuBtn] \<and> intervals c = intervals s \<and>
      pending c = pending s \<and> uncaught c = uncaught s"
    unfolding e by simp
  have others: "step v (ClickScreen (length (screens s)) ReturnMenuBtn yes) c = c\<lparr>location := Some ''index.html''\<rparr> \<and>
      step v (ClickScreen (length (screens s)) ResumeBtn yes) c = c \<and>
      step v (ClickScreen (length (screens s)) RestartBtn yes) c = c \<and>
      step v (ClickScreen (length (screens s)) MenuBtn yes) c = c"
    unfolding e by (simp add: returnMenuBtn_click_def)
  have rr: "r = restartGame (removeScreen (length (screens s)) c)"
    unfolding r_def e by (simp add: tryAgainBtn_click_def)
  have q: "screens (removeScreen (length (screens s)) c) = screens s"
    "pending (removeScreen (length (screens s)) c) = pending s"
    "timer (removeScreen (length (screens s)) c) = timer s"
    "intervals (removeScreen (length (screens s)) c) = intervals s"
    unfolding e by (simp_all add: removeScreen_def)
  note g = restartGame_effect[of "removeScreen (length (screens s)) c", unfolded q, folded rr]
  have retry: "screens r = screens s \<and> pending r = pending s @ [UpdateDisplayTask ''start''] \<and>
      currentNodeKey r = ''start'' \<and> currentChapter r = ''Start'' \<and>
      intervals r = filter (\<lambda>(i, t). Some i \<noteq> timer s) (intervals s)"
    using g by simp
  have idle: "timer_inv s \<longrightarrow> intervals r = []"
    using retry timer_inv_filter[of s] by simp
  have f: "run v [ClickScreen (length (screens s)) TryAgainBtn yes, Fire (length (pending s)) True] c =
      updateDisplay_callback (CHOICE_TIME v) ''start'' (r\<lparr>pending := pending s\<rparr>)"
    using retry by (simp add: r_def[symmetric] del: step.simps(5)) 
  have shown: "storyDiv (run v [ClickScreen (length (screens s)) TryAgainBtn yes, Fire (length (pending s)) True] c) = Some ''start'' \<and>
      choicesDiv (run v [ClickScreen (length (screens s)) TryAgainBtn yes, Fire (length (pending s)) True] c) =
        [(''Sugar Puffs'', ''breakfast''), (''Frosties'', ''breakfast'')] \<and>
      timerContainer (run v [ClickScreen (length (screens s)) TryAgainBtn yes, Fire (length (pending s)) True] c) =
        Some (CHOICE_TIME v)"
    unfolding f by (rule render_start)
  show ?thesis
    using render retry idle shown others unfolding r_def c_def by blast
qed

lemma at_ending_1: "storyNodes_at ''ending-1'' = Some \<lparr>choices = None, ending = True\<rparr>"
  by (simp add: storyNodes_at_def storyNodes_def)

theorem ending_node_offers_retry_and_return_witness:
  "storyNodes_at ''ending-1'' = Some \<lparr>choices = None, ending = True\<rparr> \<and>
   timer_inv initialPage \<and>
   choicesDiv (updateDisplay_callback 20 ''ending-1'' initialPage) = [] \<and>
   screens (updateDisplay_callback 20 ''ending-1'' initialPage) = [EndingScreen ''ending-1''] \<and>
   intervals (updateDisplay_callback 20 ''ending-1'' initialPage) = [] \<and>
   screens (step Script20 (ClickScreen 0 TryAgainBtn True)
              (updateDisplay_callback 20 ''ending-1'' initialPage)) = [] \<and>
   pending (step Script20 (ClickScreen 0 TryAgainBtn True)
              (updateDisplay_callback 20 ''ending-1'' initialPage)) = [UpdateDisplayTask ''start''] \<and>
   intervals (step Script20 (ClickScreen 0 TryAgainBtn True)
              (updateDisplay_callback 20 ''ending-1'' initialPage)) = [] \<and>
   storyDiv (run Script20 [ClickScreen 0 TryAgainBtn True, Fire 0 True]
              (updateDisplay_callback 20 ''ending-1'' initialPage)) = Some ''start''"
proof -
  define c where "c = updateDisplay_callback 20 ''ending-1'' initialPage"
  have i: "timer_inv initialPage" "screens initialPage = []" "pending initialPage = []"
    "intervals initialPage = []"
    by (simp_all add: timer_inv_def initialPage_def)
  have "storyNodes_at ''ending-1'' = Some \<lparr>choices = None, ending = True\<rparr> \<and> timer_inv initialPage \<and>
        choicesDiv c = [] \<and> screens c = [EndingScreen ''ending-1''] \<and> intervals c = [] \<and>
        screens (step Script20 (ClickScreen 0 TryAgainBtn True) c) = [] \<and>
        pending (step Script20 (ClickScreen 0 TryAgainBtn True) c) = [UpdateDisplayTask ''start''] \<and>
        intervals (step Script20 (ClickScreen 0 TryAgainBtn True) c) = [] \<and>
        storyDiv (run Script20 [ClickScreen 0 TryAgainBtn True, Fire 0 True] c) = Some ''start''"
    using ending_node_offers_retry_and_return[OF at_ending_1, of 20 initialPage Script20 True, folded c_def]
      at_ending_1 i
    by (simp del: step.simps run.simps)
  then show ?thesis unfolding c_def .
qed

section \<open>Pause, resume and choice against the countdown\<close>

lemma showPausePopup_fields:
  assumes "timer_inv s" "\<not> isPaused s"
  shows "isPaused (showPausePopup v s)"
    and "intervals (showPausePopup v s) = []"
    and "timerContainer (showPausePopup v s) = timerContainer s"
    and "screens (showPausePopup v s) = screens s @ [PauseScreen]"
    and "nextHandle (showPausePopup v s) = nextHandle s"
proof -
  have i: "intervals s = [] \<or> (\<exists>t. intervals s = [(the (timer s), t)] \<and> timer s \<noteq> None)"
    using assms(1) by (cases "intervals s") (auto simp: timer_inv_def)
  show "isPaused (showPausePopup v s)"
    using assms(2) by (cases v) (simp_all add: Let_def clearInterval_def split: option.splits)
  show "intervals (showPausePopup v s) = []"
    using assms(2) i by (cases v) (auto simp: Let_def clearInterval_def split: option.splits)
  show "timerContainer (showPausePopup v s) = timerContainer s"
    using assms(2) by (cases v) (simp_all add: Let_def clearInterval_def split: option.splits)
  show "screens (showPausePopup v s) = screens s @ [PauseScreen]"
    using assms(2) by (cases v) (simp_all add: Let_def clearInterval_def split: option.splits)
  show "nextHandle (showPausePopup v s) = nextHandle s"
    using assms(2) by (cases v) (simp_all add: Let_def clearInterval_def split: option.splits)
qed

lemma resume_fields:
  assumes "timer_inv p" "screens p = scr @ [PauseScreen]"
  shows "\<not> isPaused (step v (ClickScreen (length scr) ResumeBtn yes) p)"
    and "intervals (step v (ClickScreen (length scr) ResumeBtn yes) p) = [(nextHandle p, CHOICE_TIME v)]"
    and "timerContainer (step v (ClickScreen (length scr) ResumeBtn yes) p) = Some (CHOICE_TIME v)"
    and "screens (step v (ClickScreen (length scr) ResumeBtn yes) p) = scr"
proof -
  let ?q = "(removeScreen (length scr) p)\<lparr>isPaused := False\<rparr>"
  have q: "timer_inv ?q" using assms(1) by (simp add: timer_inv_unpause timer_inv_removeScreen)
  note f = startTimer_fields[OF q, of "CHOICE_TIME v"]
  have n: "nextHandle ?q = nextHandle p" and sq: "screens ?q = scr"
    using assms(2) by (simp_all add: removeScreen_def)
  have ip: "isPaused (startTimer D ?q) = False" for D
    by (simp add: startTimer_def Let_def updateTimerDisplay_def clearInterval_def split: option.splits)
  have e: "step v (ClickScreen (length scr) ResumeBtn yes) p = resumeBtn_click v (length scr) p"
    using assms(2) by simp
  show "\<not> isPaused (step v (ClickScreen (length scr) ResumeBtn yes) p)"
    unfolding e using ip by (cases v) (simp_all add: Let_def)
  show "intervals (step v (ClickScreen (length scr) ResumeBtn yes) p) = [(nextHandle p, CHOICE_TIME v)]"
    unfolding e using f(1) n by (cases v) (simp_all add: Let_def)
  show "timerContainer (step v (ClickScreen (length scr) ResumeBtn yes) p) = Some (CHOICE_TIME v)"
    unfolding e using f(3) by (cases v) (simp_all add: Let_def)
  show "screens (step v (ClickScreen (length scr) ResumeBtn yes) p) = scr"
    unfolding e using f(5) sq by (cases v) (simp_all add: Let_def)
qed

lemma after_three_ticks:
  "run Script20 [Fire 0 True, Tick 1, Tick 1, Tick 1] (window_onload Script20) =
     initialPage\<lparr>bodyClick := [SetupListener], storyDiv := Some ''start'', progressSpan := ''Chapter: Start'',
        choicesDiv := [(''Sugar Puffs'', ''breakfast''), (''Frosties'', ''breakfast'')],
        timerContainer := Some 17, intervals := [(1, 17)], nextHandle := 2, timer := Some 1\<rparr>"
proof -
  have "run Script20 [Fire 0 True, Tick 1, Tick 1, Tick 1] (window_onload Script20) =
        run Script20 [Tick 1, Tick 1, Tick 1] (run Script20 [Fire 0 True] (window_onload Script20))"
    by simp
  also have "\<dots> = initialPage\<lparr>bodyClick := [SetupListener], storyDiv := Some ''start'', progressSpan := ''Chapter: Start'',
        choicesDiv := [(''Sugar Puffs'', ''breakfast''), (''Frosties'', ''breakfast'')],
        timerContainer := Some 17, intervals := [(1, 17)], nextHandle := 2, timer := Some 1\<rparr>"
    unfolding shown_start
    by (simp add: initialPage_def timer_callback_def updateTimerDisplay_def Let_def)
  finally show ?thesis .
qed

text \<open>
  Claim C3. On every page reached from \<^verbatim>\<open>window.onload\<close> that is not paused, a pause
  (\<^verbatim>\<open>showPausePopup\<close>) sets \<^verbatim>\<open>isPaused\<close>, adds the pause overlay and leaves no
  countdown interval running, so that no tick changes the page any more and the seconds
  shown stay as they were. Resume on that overlay clears \<^verbatim>\<open>isPaused\<close> and starts one
  new countdown with the full \<^verbatim>\<open>CHOICE_TIME\<close> of the script, which the display shows:
  the time left at the pause is not carried over.
\<close>

theorem pause_stops_ticks_and_resume_restarts:
  assumes "\<not> isPaused (run v es (window_onload v))"
  shows "isPaused (showPausePopup v (run v es (window_onload v))) \<and>
         screens (showPausePopup v (run v es (window_onload v))) =
           screens (run v es (window_onload v)) @ [PauseScreen] \<and>
         intervals (showPausePopup v (run v es (window_onload v))) = [] \<and>
         timerContainer (showPausePopup v (run v es (window_onload v))) =
           timerContainer (run v es (window_onload v)) \<and>
         (\<forall>hs. run v (map Tick hs) (showPausePopup v (run v es (window_onload v))) =
                 showPausePopup v (run v es (window_onload v))) \<and>
         \<not> isPaused (step v (ClickScreen (length (screens (run v es (window_onload v)))) ResumeBtn yes)
                       (showPausePopup v (run v es (window_onload v)))) \<and>
         intervals (step v (ClickScreen (length (screens (run v es (window_onload v)))) ResumeBtn yes)
                      (showPausePopup v (run v es (window_onload v)))) =
           [(nextHandle (run v es (window_onload v)), CHOICE_TIME v)] \<and>
         timerContainer (step v (ClickScreen (length (screens (run v es (window_onload v)))) ResumeBtn yes)
                           (showPausePopup v (run v es (window_onload v)))) = Some (CHOICE_TIME v)"
proof -
  let ?s = "run v es (window_onload v)"
  have inv: "timer_inv ?s" by (rule timer_inv_reachable)
  note p = showPausePopup_fields[OF inv assms, of v]
  have pinv: "timer_inv (showPausePopup v ?s)" using inv by (rule timer_inv_showPausePopup)
  note r = resume_fields[OF pinv p(4), of v yes]
  show ?thesis using p r ticks_idle[OF p(2)] by simp
qed

theorem pause_stops_ticks_and_resume_restarts_witness:
  "\<not> isPaused (run Script20 [Fire 0 True, Tick 1, Tick 1, Tick 1] (window_onload Script20)) \<and>
   intervals (run Script20 [Fire 0 True, Tick 1, Tick 1, Tick 1] (window_onload Script20)) = [(1, 17)] \<and>
   intervals (showPausePopup Script20
     (run Script20 [Fire 0 True, Tick 1, Tick 1, Tick 1] (window_onload Script20))) = [] \<and>
   timerContainer (showPausePopup Script20
     (run Script20 [Fire 0 True, Tick 1, Tick 1, Tick 1] (window_onload Script20))) = Some 17 \<and>
   intervals (step Script20 (ClickScreen 0 ResumeBtn True) (showPausePopup Script20
     (run Script20 [Fire 0 True, Tick 1, Tick 1, Tick 1] (window_onload Script20)))) = [(2, 20)]"
proof -
  define s0 where "s0 = run Script20 [Fire 0 True, Tick 1, Tick 1, Tick 1] (window_onload Script20)"
  have h: "\<not> isPaused s0"
    unfolding s0_def after_three_ticks by (simp add: initialPage_def)
  have f: "intervals s0 = [(1, 17)]" "screens s0 = []" "nextHandle s0 = 2" "timerContainer s0 = Some 17"
    unfolding s0_def after_three_ticks by (simp_all add: initialPage_def)
  have "\<not> isPaused s0 \<and> intervals s0 = [(1, 17)] \<and> intervals (showPausePopup Script20 s0) = [] \<and>
        timerContainer (showPausePopup Script20 s0) = Some 17 \<and>
        intervals (step Script20 (ClickScreen 0 ResumeBtn True) (showPausePopup Script20 s0)) = [(2, 20)]"
    using pause_stops_ticks_and_resume_restarts[OF h[unfolded s0_def], of True, folded s0_def] h f
    by (simp del: step.simps showPausePopup.simps)
  then show ?thesis unfolding s0_def .
qed

text \<open>
  Claim C9, as amended. On every page reached from \<^verbatim>\<open>window.onload\<close>, a click on a
  choice button clears the countdown in the click handler itself: no interval is left
  running, the transition to the target is scheduled, and no tick that may still be due
  changes the page, so the countdown in which the choice was taken never shows the time-up
  screen.
\<close>

theorem choice_cancels_the_countdown:
  assumes "i < length (choicesDiv (run v es (window_onload v)))"
  shows "intervals (step v (ClickChoice i) (run v es (window_onload v))) = [] \<and>
         screens (step v (ClickChoice i) (run v es (window_onload v))) =
           screens (run v es (window_onload v)) \<and>
         pending (step v (ClickChoice i) (run v es (window_onload v))) =
           pending (run v es (window_onload v)) @
             [UpdateDisplayTask (snd (choicesDiv (run v es (window_onload v)) ! i))] \<and>
         (\<forall>hs. run v (map Tick hs) (step v (ClickChoice i) (run v es (window_onload v))) =
                 step v (ClickChoice i) (run v es (window_onload v)))"
proof -
  let ?s = "run v es (window_onload v)"
  have inv: "timer_inv ?s" by (rule timer_inv_reachable)
  have i: "intervals (step v (ClickChoice i) ?s) = []"
    using assms intervals_clear_timer[OF inv] by (simp add: choice_onclick_def updateDisplay_def)
  have "screens (step v (ClickChoice i) ?s) = screens ?s"
    using assms by (simp add: choice_onclick_def updateDisplay_def clearInterval_def split: option.splits)
  moreover have "pending (step v (ClickChoice i) ?s) =
      pending ?s @ [UpdateDisplayTask (snd (choicesDiv ?s ! i))]"
    using assms by (simp add: choice_onclick_def updateDisplay_def clearInterval_def split: option.splits)
  ultimately show ?thesis using i ticks_idle[OF i] by simp
qed

theorem choice_cancels_the_countdown_witness:
  "(0::nat) < length (choicesDiv (run Script20 [Fire 0 True, Tick 1, Tick 1, Tick 1] (window_onload Script20))) \<and>
   intervals (run Script20 [Fire 0 True, Tick 1, Tick 1, Tick 1] (window_onload Script20)) = [(1, 17)] \<and>
   intervals (step Script20 (ClickChoice 0)
     (run Script20 [Fire 0 True, Tick 1, Tick 1, Tick 1] (window_onload Script20))) = [] \<and>
   pending (step Script20 (ClickChoice 0)
     (run Script20 [Fire 0 True, Tick 1, Tick 1, Tick 1] (window_onload Script20))) =
     [UpdateDisplayTask ''breakfast'']"
proof -
  define s0 where "s0 = run Script20 [Fire 0 True, Tick 1, Tick 1, Tick 1] (window_onload Script20)"
  have h: "0 < length (choicesDiv s0)"
    unfolding s0_def after_three_ticks by simp
  have f: "intervals s0 = [(1, 17)]" "pending s0 = []"
    "choicesDiv s0 = [(''Sugar Puffs'', ''breakfast''), (''Frosties'', ''breakfast'')]"
    unfolding s0_def after_three_ticks by (simp_all add: initialPage_def)
  have "0 < length (choicesDiv s0) \<and> intervals s0 = [(1, 17)] \<and>
        intervals (step Script20 (ClickChoice 0) s0) = [] \<and>
        pending (step Script20 (ClickChoice 0) s0) = [UpdateDisplayTask ''breakfast'']"
    using choice_cancels_the_countdown[OF h[unfolded s0_def], folded s0_def] h f
    by (simp del: step.simps)
  then show ?thesis unfolding s0_def .
qed

lemma run_append: "run v (es @ fs) s = run v fs (run v es s)"
  by (induction es arbitrary: s) simp_all

lemma timer_callback_keeps:
  "choicesDiv (timer_callback h s) = choicesDiv s" "pending (timer_callback h s) = pending s"
  "storyDiv (timer_callback h s) = storyDiv s"
  by (simp_all add: timer_callback_def Let_def updateTimerDisplay_def showTimeUpScreen_def
      clearInterval_def split: option.splits)

lemma ticks_keep:
  "choicesDiv (run v (replicate n (Tick h)) s) = choicesDiv s \<and>
   pending (run v (replicate n (Tick h)) s) = pending s \<and>
   storyDiv (run v (replicate n (Tick h)) s) = storyDiv s"
  by (induction n arbitrary: s) (simp_all add: timer_callback_keeps)

text \<open>
  Claim C9 as stated also says that a choice taken after the expiry does not fire. The
  handlers of the choice buttons stay attached when the time-up screen is shown and do not
  look at it: after twenty ticks on \<^verbatim>\<open>start\<close> the time-up screen is up, and a click on
  the first button still moves to \<^verbatim>\<open>breakfast\<close>, with the time-up screen still there.
\<close>

theorem choice_after_expiry_still_fires:
  "screens (run Script20 (Fire 0 True # replicate 20 (Tick 1)) (window_onload Script20)) = [TimeUpScreen] \<and>
   storyDiv (run Script20 (Fire 0 True # replicate 20 (Tick 1)) (window_onload Script20)) = Some ''start'' \<and>
   storyDiv (run Script20 ((Fire 0 True # replicate 20 (Tick 1)) @ [ClickChoice 0, Fire 0 True])
               (window_onload Script20)) = Some ''breakfast'' \<and>
   screens (run Script20 ((Fire 0 True # replicate 20 (Tick 1)) @ [ClickChoice 0, Fire 0 True])
               (window_onload Script20)) = [TimeUpScreen]"
proof -
  define s0 where "s0 = run Script20 [Fire 0 True] (window_onload Script20)"
  define s1 where "s1 = run Script20 (replicate 20 (Tick 1)) s0"
  have f0: "timer s0 = Some 1" "intervals s0 = [(1, 20)]" "timerContainer s0 = Some 20"
    "screens s0 = []" "pending s0 = []" "storyDiv s0 = Some ''start''"
    "choicesDiv s0 = [(''Sugar Puffs'', ''breakfast''), (''Frosties'', ''breakfast'')]"
    unfolding s0_def shown_start by (simp_all add: initialPage_def)
  have e: "run Script20 (Fire 0 True # replicate 20 (Tick 1)) (window_onload Script20) = s1"
    unfolding s1_def s0_def by simp
  have f1: "screens s1 = [TimeUpScreen]"
    using countdown[OF f0(1) f0(2) f0(3), of 20 Script20] f0(4) unfolding s1_def by simp
  have k1: "choicesDiv s1 = [(''Sugar Puffs'', ''breakfast''), (''Frosties'', ''breakfast'')]"
    "pending s1 = []" "storyDiv s1 = Some ''start''"
    unfolding s1_def using ticks_keep[of Script20 20 1 s0] f0 by simp_all
  have t: "storyDiv (run Script20 [ClickChoice 0, Fire 0 True] s1) = Some ''breakfast'' \<and>
           screens (run Script20 [ClickChoice 0, Fire 0 True] s1) = [TimeUpScreen]"
    using transition[of s1 0 "''breakfast''" _ _ Script20, OF k1(2) _ _ path_nodes(1)] k1 f1
    by simp
  show ?thesis
    unfolding run_append e using f1 k1(3) t by simp
qed

section \<open>The keyword\<close>

lemma includes_str_sublist: "includes_str str sub = sublist sub str"
  by (induction str) (simp_all add: sublist_Cons_right)

lemma sublist_dropWhile:
  assumes "sub \<noteq> []" "\<not> P (hd sub)"
  shows "sublist sub (dropWhile P xs) = sublist sub xs"
proof (induction xs)
  case Nil
  show ?case by simp
next
  case (Cons x xs)
  show ?case
  proof (cases "P x")
    case True
    have "\<not> prefix sub (x # xs)"
      using assms True by (cases sub) auto
    then show ?thesis using True Cons by (simp add: sublist_Cons_right)
  next
    case False
    then show ?thesis by simp
  qed
qed

lemma includes_str_trim:
  assumes "sub \<noteq> []" "\<not> isWhiteSpace (hd sub)" "\<not> isWhiteSpace (last sub)"
  shows "includes_str (trim str) sub = includes_str str sub"
proof -
  have r: "rev sub \<noteq> []" "\<not> isWhiteSpace (hd (rev sub))"
    using assms by (simp_all add: hd_rev)
  have "sublist sub (trim str) = sublist (rev sub) (dropWhile isWhiteSpace (rev (dropWhile isWhiteSpace str)))"
    unfolding trim_def using sublist_rev[of sub "rev (dropWhile isWhiteSpace (rev (dropWhile isWhiteSpace str)))"]
    by simp
  also have "\<dots> = sublist (rev sub) (rev (dropWhile isWhiteSpace str))"
    using r by (rule sublist_dropWhile[where P = isWhiteSpace])
  also have "\<dots> = sublist sub (dropWhile isWhiteSpace str)" by simp
  also have "\<dots> = sublist sub str"
    using assms(1,2) by (rule sublist_dropWhile[where P = isWhiteSpace])
  finally show ?thesis by (simp add: includes_str_sublist)
qed

lemma includes_stop_trim: "includes_str (trim str) ''stop'' = includes_str str ''stop''"
  by (rule includes_str_trim) (simp_all add: isWhiteSpace_def)

lemma onresult_loop_eq:
  "onresult_loop rs s =
     (if list_ex (\<lambda>transcript. includes_str (toLowerCase transcript) ''stop'') rs
      then showPausePopup Script60 s else s)"
  by (induction rs) (simp_all add: includes_stop_trim del: showPausePopup.simps)

lemma showPausePopup_pauses:
  "\<not> isPaused s \<Longrightarrow>
   isPaused (showPausePopup v s) \<and> screens (showPausePopup v s) = screens s @ [PauseScreen]"
  by (cases v) (simp_all add: Let_def clearInterval_def split: option.splits)

text \<open>
  Claim C5, as amended. A recognition event in which the keyword is heard, on a page that is
  not paused, makes exactly one pause transition: \<^verbatim>\<open>isPaused\<close> becomes true and one
  pause overlay is added. On a page that is already paused the event makes no pause
  transition and changes nothing of the pause, the overlays, the timer or the story: the
  first script leaves the page as it is, the second only zeroes its restart counter and
  records the time of the result.
\<close>

theorem stop_pauses_once:
  "(\<not> isPaused s \<and> stop_heard v resultIndex results \<longrightarrow>
      isPaused (step v (RecResult now resultIndex results) s) \<and>
      screens (step v (RecResult now resultIndex results) s) = screens s @ [PauseScreen]) \<and>
   (isPaused s \<longrightarrow>
      step v (RecResult now resultIndex results) s =
        (case v of
           Script20 \<Rightarrow> s
         | Script60 \<Rightarrow> s\<lparr>recognitionRestartAttempts := 0, lastRecognitionTime := now\<rparr>))"
proof (cases v)
  case Script20
  then show ?thesis
    using showPausePopup_pauses[of s Script20] by (simp del: showPausePopup.simps)
next
  case Script60
  have "\<not> isPaused s \<Longrightarrow>
        isPaused (showPausePopup Script60 (s\<lparr>recognitionRestartAttempts := 0, lastRecognitionTime := now\<rparr>)) \<and>
        screens (showPausePopup Script60 (s\<lparr>recognitionRestartAttempts := 0, lastRecognitionTime := now\<rparr>)) =
          screens s @ [PauseScreen]"
    using showPausePopup_pauses[of "s\<lparr>recognitionRestartAttempts := 0, lastRecognitionTime := now\<rparr>" Script60]
    by simp
  moreover have "isPaused s \<Longrightarrow>
        showPausePopup Script60 (s\<lparr>recognitionRestartAttempts := 0, lastRecognitionTime := now\<rparr>) =
          s\<lparr>recognitionRestartAttempts := 0, lastRecognitionTime := now\<rparr>"
    by simp
  ultimately show ?thesis
    using Script60 by (simp add: onresult_loop_eq del: showPausePopup.simps)
qed

lemma heard_example: "stop_heard Script60 0 [''Please STOP now'']"
  by (simp add: toLowerCase_def toLowerCase_char_def)

theorem stop_pauses_once_witness:
  "\<not> isPaused initialPage \<and> stop_heard Script60 0 [''Please STOP now''] \<and>
   isPaused (step Script60 (RecResult 7 0 [''Please STOP now'']) initialPage) \<and>
   screens (step Script60 (RecResult 7 0 [''Please STOP now'']) initialPage) = [PauseScreen] \<and>
   isPaused (initialPage\<lparr>isPaused := True\<rparr>) \<and>
   step Script20 (RecResult 9 0 [''stop'']) (initialPage\<lparr>isPaused := True\<rparr>) =
     initialPage\<lparr>isPaused := True\<rparr>"
proof -
  have a: "\<not> isPaused initialPage" "screens initialPage = []" by (simp_all add: initialPage_def)
  show ?thesis
    using stop_pauses_once[of initialPage Script60 0 "[''Please STOP now'']" 7]
      stop_pauses_once[of "initialPage\<lparr>isPaused := True\<rparr>" Script20 0 "[''stop'']" 9]
      a heard_example
    by (simp del: step.simps stop_heard.simps)
qed

lemma paused_by_voice:
  "run Script60 [Fire 0 True, ClickBody True True True, RecStart 5, RecResult 10 0 [''stop'']]
     (window_onload Script60) =
   initialPage\<lparr>storyDiv := Some ''start'', progressSpan := ''Chapter: Start'',
      choicesDiv := [(''Sugar Puffs'', ''breakfast''), (''Frosties'', ''breakfast'')],
      timerContainer := Some 60, nextHandle := 3, timer := Some 1, recognition := True,
      engine := [Start, Stop], lastRecognitionTime := 10, recognitionHeartbeat := Some 2,
      isPaused := True, screens := [PauseScreen]\<rparr>"
proof -
  have "run Script60 [Fire 0 True, ClickBody True True True, RecStart 5, RecResult 10 0 [''stop'']]
          (window_onload Script60) =
        run Script60 [ClickBody True True True, RecStart 5, RecResult 10 0 [''stop'']]
          (run Script60 [Fire 0 True] (window_onload Script60))"
    by simp
  also have "\<dots> = initialPage\<lparr>storyDiv := Some ''start'', progressSpan := ''Chapter: Start'',
      choicesDiv := [(''Sugar Puffs'', ''breakfast''), (''Frosties'', ''breakfast'')],
      timerContainer := Some 60, nextHandle := 3, timer := Some 1, recognition := True,
      engine := [Start, Stop], lastRecognitionTime := 10, recognitionHeartbeat := Some 2,
      isPaused := True, screens := [PauseScreen]\<rparr>"
    unfolding shown_start
    by (simp add: initialPage_def body_click_def setupRecognitionHeartbeat_def truthy_def
        clearInterval_def Let_def toLowerCase_def toLowerCase_char_def trim_def isWhiteSpace_def)
  finally show ?thesis .
qed

text \<open>
  Claim C5 as stated says that the keyword heard while paused changes no state. In the
  second script the handler first resets \<^verbatim>\<open>recognitionRestartAttempts\<close> and stores
  \<^verbatim>\<open>Date.now()\<close> in \<^verbatim>\<open>lastRecognitionTime\<close>, whether paused or not: on the page paused
  by a first "stop" at time 10, a second "stop" at time 999 moves
  \<^verbatim>\<open>lastRecognitionTime\<close> from 10 to 999.
\<close>

theorem stop_while_paused_changes_state:
  "isPaused (run Script60 [Fire 0 True, ClickBody True True True, RecStart 5, RecResult 10 0 [''stop'']]
               (window_onload Script60)) \<and>
   lastRecognitionTime (run Script60 [Fire 0 True, ClickBody True True True, RecStart 5, RecResult 10 0 [''stop'']]
               (window_onload Script60)) = 10 \<and>
   lastRecognitionTime (step Script60 (RecResult 999 0 [''stop''])
      (run Script60 [Fire 0 True, ClickBody True True True, RecStart 5, RecResult 10 0 [''stop'']]
               (window_onload Script60))) = 999"
  unfolding paused_by_voice
  by (simp add: initialPage_def toLowerCase_def toLowerCase_char_def trim_def isWhiteSpace_def)

section \<open>Automatic restarts of the recognizer\<close>












lemma attempts_setupVoiceRecognition:
  "recognitionRestartAttempts (setupVoiceRecognition v supported ok s) = recognitionRestartAttempts s"
  by (cases v) (simp_all add: Let_def)

















text \<open>
  The two other paths that call \<^verbatim>\<open>recognition.start()\<close> carry no counter: on any page
  that is not paused, the retry after a network error, and the restart of a heartbeat that
  found the recognizer stalled, start it again and leave the restart counter and the click
  listeners as they are.
\<close>

lemma network_retry_is_not_counted:
  assumes "\<not> isPaused s"
  shows "engine (run Script60 [RecError ''network'', Fire (length (pending s)) True] s) = engine s @ [Start] \<and>
         recognitionRestartAttempts (run Script60 [RecError ''network'', Fire (length (pending s)) True] s) =
           recognitionRestartAttempts s \<and>
         bodyClick (run Script60 [RecError ''network'', Fire (length (pending s)) True] s) = bodyClick s"
  using assms by (simp add: Let_def)

lemma heartbeat_restart_is_not_counted:
  assumes "\<not> isPaused s" "isListening s" "h \<in> set (heartbeats s)"
    "HEARTBEAT_TIMEOUT_THRESHOLD < int now - int (lastRecognitionTime s)"
  shows "engine (run Script60 [Heartbeat h now, Fire (length (pending s)) True] s) = engine s @ [Stop, Start] \<and>
         recognitionRestartAttempts (run Script60 [Heartbeat h now, Fire (length (pending s)) True] s) =
           recognitionRestartAttempts s \<and>
         bodyClick (run Script60 [Heartbeat h now, Fire (length (pending s)) True] s) = bodyClick s"
  using assms by (simp add: heartbeat_callback_def)








end
